theory Spec2Isabelle
  imports Complex_Main "HOL-Library.Log_Nat" "HOL-Library.Word"
begin

section \<open>The video upload handler of tubelyTS\<close>

text \<open>
  A shallow embedding of the video upload handler (\<^verbatim>\<open>handlerUploadVideo\<close>,
  \<^verbatim>\<open>getVideoAspectRatio\<close>, \<^verbatim>\<open>processVideoForFastStart\<close>,
  \<^verbatim>\<open>dbVideoToSignedVideo\<close>). The handler is asynchronous but awaits every
  call, so it is a sequential program over the file system, the object store, the record
  store and the console; these are the fields of a world that every function takes and
  returns. A thrown exception is the left summand of the result.
\<close>

subsection \<open>Errors\<close>

text \<open>
  The three error classes of \<^verbatim>\<open>./errors\<close> the handler throws, JavaScript's own
  \<^verbatim>\<open>Error\<close> with its message, and the \<^verbatim>\<open>TypeError\<close> of destructuring
  \<^verbatim>\<open>undefined\<close>.
\<close>

datatype error =
    BadRequestError string
  | NotFoundError string
  | UserForbiddenError string
  | Error string
  | TypeError

subsection \<open>JavaScript numbers\<close>

text \<open>
  A JavaScript number is an IEEE 754 binary64 value. A finite one is the rational it
  denotes; every arithmetic operation rounds its exact result to the nearest binary64
  value, ties to the even significand, with gradual underflow below \<open>2\<^sup>-\<^sup>1\<^sup>0\<^sup>2\<^sup>2\<close>
  and overflow to an infinity from \<open>2\<^sup>1\<^sup>0\<^sup>2\<^sup>4\<close> on. Zero is unsigned in this model: the
  sign of a zero can only decide the sign of an infinity, and the classification below
  treats both infinities alike.
\<close>

datatype number = Num rat | PInf | NInf | NaN

text \<open>\<open>ilog2 q\<close> is \<open>\<lfloor>log\<^sub>2 q\<rfloor>\<close> for a positive rational \<open>q\<close>.\<close>

definition ilog2 :: "rat \<Rightarrow> int" where
  "ilog2 q = (if 1 \<le> q then bitlen \<lfloor>q\<rfloor> - 1 else - bitlen (\<lceil>1 / q\<rceil> - 1))"

definition round_half_even :: "rat \<Rightarrow> int" where
  "round_half_even q =
     (let f = \<lfloor>q\<rfloor>; d = q - of_int f
      in if d < 1 / 2 then f else if 1 / 2 < d then f + 1 else if even f then f else f + 1)"

text \<open>
  Rounding a non-negative rational to the binary64 grid: 53 significant bits, the
  exponent never below \<open>-1022\<close>.
\<close>

definition expo :: "rat \<Rightarrow> int" where
  "expo q = max (ilog2 q) (- 1022)"

definition round64_pos :: "rat \<Rightarrow> rat" where
  "round64_pos q =
     (let u = 2 powi (expo q - 52)
      in of_int (round_half_even (q / u)) * u)"

definition round64 :: "rat \<Rightarrow> number" where
  "round64 q =
     (let m = round64_pos \<bar>q\<bar>
      in if 2 ^ 1024 \<le> m then (if 0 < q then PInf else NInf)
         else Num (if q < 0 then - m else m))"

fun number_div :: "number \<Rightarrow> number \<Rightarrow> number" where
  "number_div NaN y = NaN"
| "number_div x NaN = NaN"
| "number_div (Num a) (Num b) =
     (if b = 0 then (if a = 0 then NaN else if 0 < a then PInf else NInf)
      else round64 (a / b))"
| "number_div (Num a) y = Num 0"
| "number_div PInf (Num b) = (if 0 \<le> b then PInf else NInf)"
| "number_div NInf (Num b) = (if 0 \<le> b then NInf else PInf)"
| "number_div x y = NaN"

fun number_sub :: "number \<Rightarrow> number \<Rightarrow> number" where
  "number_sub NaN y = NaN"
| "number_sub x NaN = NaN"
| "number_sub (Num a) (Num b) = round64 (a - b)"
| "number_sub (Num a) PInf = NInf"
| "number_sub (Num a) NInf = PInf"
| "number_sub PInf PInf = NaN"
| "number_sub PInf y = PInf"
| "number_sub NInf NInf = NaN"
| "number_sub NInf y = NInf"

fun number_abs :: "number \<Rightarrow> number" where
  "number_abs (Num a) = Num \<bar>a\<bar>"
| "number_abs PInf = PInf"
| "number_abs NInf = PInf"
| "number_abs NaN = NaN"

fun number_less :: "number \<Rightarrow> number \<Rightarrow> bool" where
  "number_less NaN y = False"
| "number_less x NaN = False"
| "number_less (Num a) (Num b) = (a < b)"
| "number_less (Num a) PInf = True"
| "number_less (Num a) NInf = False"
| "number_less PInf y = False"
| "number_less NInf NInf = False"
| "number_less NInf y = True"

subsection \<open>Strings, paths and encodings\<close>

text \<open>A number in a template literal; exit codes are integers.\<close>

fun show_nat :: "nat \<Rightarrow> string" where
  "show_nat n =
     (if n < 10 then [''0123456789'' ! n]
      else show_nat (n div 10) @ [''0123456789'' ! (n mod 10)])"

definition show_int :: "int \<Rightarrow> string" where
  "show_int i = (if i < 0 then CHR ''-'' # show_nat (nat (- i)) else show_nat (nat i))"

text \<open>\<^verbatim>\<open>s.split(c)\<close> for a one-character separator.\<close>

fun split_on :: "char \<Rightarrow> string \<Rightarrow> string list" where
  "split_on c [] = [[]]"
| "split_on c (x # xs) =
     (if x = c then [] # split_on c xs
      else (case split_on c xs of [] \<Rightarrow> [[x]] | y # ys \<Rightarrow> (x # y) # ys))"

text \<open>
  An element of an array of strings inside a template literal: out of range it is
  \<^verbatim>\<open>undefined\<close>, which the literal prints as that word.
\<close>

definition template_nth :: "string list \<Rightarrow> nat \<Rightarrow> string" where
  "template_nth xs i = (if i < length xs then xs ! i else ''undefined'')"

text \<open>\<^verbatim>\<open>Buffer.toString("base64url")\<close>: the URL-safe alphabet, no padding.\<close>

definition b64url_char :: "nat \<Rightarrow> char" where
  "b64url_char n =
     ''ABCDEFGHIJKLMNOPQRSTUVWXYZabcdefghijklmnopqrstuvwxyz0123456789-_'' ! (n mod 64)"

fun base64url :: "8 word list \<Rightarrow> string" where
  "base64url (a # b # c # rest) =
     (let n = unat a * 65536 + unat b * 256 + unat c
      in [b64url_char (n div 262144), b64url_char (n div 4096), b64url_char (n div 64),
          b64url_char n] @ base64url rest)"
| "base64url [a, b] =
     (let n = unat a * 1024 + unat b * 4
      in [b64url_char (n div 4096), b64url_char (n div 64), b64url_char n])"
| "base64url [a] = (let n = unat a * 16 in [b64url_char (n div 64), b64url_char n])"
| "base64url [] = []"

text \<open>
  \<^verbatim>\<open>path.join\<close> of Node's POSIX \<^verbatim>\<open>path\<close> module: the non-empty arguments
  joined by a slash, then normalised (empty and \<^verbatim>\<open>.\<close> segments dropped, a
  \<^verbatim>\<open>..\<close> segment removing the segment before it).
\<close>

fun normalizeString :: "bool \<Rightarrow> string list \<Rightarrow> string list \<Rightarrow> string list" where
  "normalizeString allowAboveRoot [] res = rev res"
| "normalizeString allowAboveRoot (seg # segs) res =
     (if seg = [] \<or> seg = ''.'' then normalizeString allowAboveRoot segs res
      else if seg = ''..'' then
        (if res \<noteq> [] \<and> hd res \<noteq> ''..'' then normalizeString allowAboveRoot segs (tl res)
         else if allowAboveRoot then normalizeString allowAboveRoot segs (''..'' # res)
         else normalizeString allowAboveRoot segs res)
      else normalizeString allowAboveRoot segs (seg # res))"

fun join_with :: "string \<Rightarrow> string list \<Rightarrow> string" where
  "join_with sep [] = []"
| "join_with sep [x] = x"
| "join_with sep (x # y # ys) = x @ sep @ join_with sep (y # ys)"

definition path_normalize :: "string \<Rightarrow> string" where
  "path_normalize p =
     (if p = [] then ''.''
      else
        let isAbsolute = (hd p = CHR ''/'');
            trailingSeparator = (last p = CHR ''/'');
            s = join_with ''/'' (normalizeString (\<not> isAbsolute) (split_on CHR ''/'' p) [])
        in if s = [] then (if isAbsolute then ''/'' else if trailingSeparator then ''./'' else ''.'')
           else (if isAbsolute then ''/'' else []) @ s @ (if trailingSeparator then ''/'' else []))"

definition path_join :: "string \<Rightarrow> string \<Rightarrow> string" where
  "path_join a b =
     (let joined = join_with ''/'' (filter (\<lambda>s. s \<noteq> []) [a, b])
      in if joined = [] then ''.'' else path_normalize joined)"

subsection \<open>Records, requests and the world\<close>

type_synonym path = string
type_synonym bytes = "8 word list"

text \<open>
  The \<^verbatim>\<open>Video\<close> row of \<^verbatim>\<open>../db/videos\<close>. The handler reads and writes
  the four fields below; the record is extensible, and its extension stands for every
  other column of the row.
\<close>

record video =
  id' :: string
  userID :: string
  videoURL :: "string option"
  thumbnailURL :: "string option"

text \<open>The fields of \<^verbatim>\<open>ApiConfig\<close> the handler reads (the database handle is the world's).\<close>

record ApiConfig =
  jwtSecret :: string
  assetsRoot :: string

text \<open>A \<^verbatim>\<open>File\<close> of the form data: its size, its declared type and its bytes.\<close>

record File =
  fsize :: nat
  ftype :: string
  arrayBuffer :: bytes

datatype form_value = FormFile File | FormString string

text \<open>
  The request: the route parameter, the headers, and what \<^verbatim>\<open>req.formData()\<close>
  resolves to (or rejects with).
\<close>

record request =
  videoId :: "string option"
  headers :: "(string \<times> string) list"
  formData :: "error + (string \<times> form_value) list"

datatype log_arg = LStr string | LErr error

text \<open>An object of the bucket: the bytes uploaded and the declared content type.\<close>

record s3_object =
  s3_body :: "bytes option"
  s3_contentType :: string

record 'v world =
  files :: "path \<rightharpoonup> bytes"
  bucket :: "string \<rightharpoonup> s3_object"
  db :: "string \<rightharpoonup> 'v video_scheme"
  console :: "log_arg list list"

text \<open>What a spawned process leaves behind: exit code, both streams, the file system.\<close>

record proc =
  exited :: int
  stdout :: string
  stderr :: string
  files_after :: "path \<rightharpoonup> bytes"

text \<open>One video stream of the probe's JSON document.\<close>

record stream =
  width :: number
  height :: number

text \<open>
  What the handler cannot decide for itself: the collaborators of \<^verbatim>\<open>../auth\<close> and
  \<^verbatim>\<open>../s3\<close>, whose sources are not part of the files at hand, the random
  generator, the external processes, and which file operations fail. \<^verbatim>\<open>JSON_parse\<close>
  is \<^verbatim>\<open>JSON.parse\<close> followed by the read of \<^verbatim>\<open>data.streams\<close>: it gives the
  streams of a well-formed document and the error thrown otherwise. A stream that
  lacks a dimension has \<open>NaN\<close> there, which is what \<^verbatim>\<open>undefined\<close> becomes in
  arithmetic. \<^verbatim>\<open>Bun.spawn\<close> is taken to start the process: the executables are on
  the path. A write or a deletion that fails leaves the file system as it was.
\<close>

record env =
  getBearerToken :: "(string \<times> string) list \<Rightarrow> error + string"
  validateJWT :: "string \<Rightarrow> string \<Rightarrow> error + string"
  randomBytes :: "nat \<Rightarrow> bytes"
  write_error :: "path \<Rightarrow> error option"
  delete_error :: "path \<Rightarrow> error option"
  spawn :: "string list \<Rightarrow> (path \<rightharpoonup> bytes) \<Rightarrow> proc"
  JSON_parse :: "string \<Rightarrow> error + stream list"
  upload_error :: "string \<Rightarrow> path \<Rightarrow> error option"
  generatePresignedURL :: "ApiConfig \<Rightarrow> string \<Rightarrow> nat \<Rightarrow> string"

record 'v response =
  status :: nat
  body :: "'v video_scheme"

definition respondWithJSON :: "nat \<Rightarrow> 'v video_scheme \<Rightarrow> 'v response" where
  "respondWithJSON code payload = \<lparr>status = code, body = payload\<rparr>"

definition console_log :: "log_arg list \<Rightarrow> 'v world \<Rightarrow> 'v world" where
  "console_log args w = w\<lparr>console := console w @ [args]\<rparr>"

subsection \<open>The record store and the object store\<close>

text \<open>
  Modelled from the spec: \<^verbatim>\<open>getVideo\<close> and \<^verbatim>\<open>updateVideo\<close> of
  \<^verbatim>\<open>../db/videos\<close> are missing. The spec gives the record store as
  \<^verbatim>\<open>get(id) -> Record|absent\<close> and \<^verbatim>\<open>update(Record) -> void\<close>: a lookup by
  id, and a write of the record under its id. The store keeps a copy of the record, as
  a database row does.
\<close>

definition getVideo :: "'v world \<Rightarrow> string \<Rightarrow> 'v video_scheme option" where
  "getVideo w vid = db w vid"

definition updateVideo :: "'v video_scheme \<Rightarrow> 'v world \<Rightarrow> 'v world" where
  "updateVideo v w = w\<lparr>db := (db w)(id' v \<mapsto> v)\<rparr>"

text \<open>
  Modelled from the spec: \<^verbatim>\<open>uploadVideoToS3\<close> of \<^verbatim>\<open>../s3\<close> is missing. The
  spec gives it as \<^verbatim>\<open>upload(key, localPath, contentType) -> void\<close>, which pushes a
  local file to the bucket under the key with the declared content type and fails on
  any transport or authorization error.
\<close>

definition uploadVideoToS3 ::
  "env \<Rightarrow> ApiConfig \<Rightarrow> string \<Rightarrow> path \<Rightarrow> string \<Rightarrow> 'v world \<Rightarrow> (error + unit) \<times> 'v world" where
  "uploadVideoToS3 E cfg key filepath contentType w =
     (case upload_error E key filepath of
        Some e \<Rightarrow> (Inl e, w)
      | None \<Rightarrow>
          (Inr (),
           w\<lparr>bucket := (bucket w)(key \<mapsto>
                \<lparr>s3_body = files w filepath, s3_contentType = contentType\<rparr>)\<rparr>))"

subsection \<open>File operations of the runtime\<close>

definition Bun_write :: "env \<Rightarrow> path \<Rightarrow> bytes \<Rightarrow> 'v world \<Rightarrow> (error + unit) \<times> 'v world" where
  "Bun_write E p buffer w =
     (case write_error E p of
        Some e \<Rightarrow> (Inl e, w)
      | None \<Rightarrow> (Inr (), w\<lparr>files := (files w)(p \<mapsto> buffer)\<rparr>))"

definition file_exists :: "'v world \<Rightarrow> path \<Rightarrow> bool" where
  "file_exists w p = (files w p \<noteq> None)"

definition file_delete :: "env \<Rightarrow> path \<Rightarrow> 'v world \<Rightarrow> (error + unit) \<times> 'v world" where
  "file_delete E p w =
     (case delete_error E p of
        Some e \<Rightarrow> (Inl e, w)
      | None \<Rightarrow> (Inr (), w\<lparr>files := (files w)(p := None)\<rparr>))"

subsection \<open>The media inspector and the remuxer\<close>

definition aspect_of :: "number \<Rightarrow> number \<Rightarrow> string" where
  "aspect_of w h =
     (let ratio = number_div w h
      in if number_less (number_abs (number_sub ratio (number_div (Num 16) (Num 9))))
              (round64 (1 / 100))
         then ''landscape''
         else if number_less (number_abs (number_sub ratio (number_div (Num 9) (Num 16))))
              (round64 (1 / 100))
         then ''portrait''
         else ''other'')"

definition ffprobe_argv :: "path \<Rightarrow> string list" where
  "ffprobe_argv filepath =
     [''ffprobe'', ''-v'', ''error'', ''-select_streams'', ''v:0'', ''-show_entries'',
      ''stream=width,height'', ''-of'', ''json'', ''-show_streams'', filepath]"

definition getVideoAspectRatio :: "env \<Rightarrow> path \<Rightarrow> 'v world \<Rightarrow> (error + string) \<times> 'v world" where
  "getVideoAspectRatio E filepath w =
     (let result = spawn E (ffprobe_argv filepath) (files w);
          w1 = w\<lparr>files := files_after result\<rparr>
      in if exited result \<noteq> 0
         then (Inl (Error (''ffprobe failed with exit code '' @ show_int (exited result)
                           @ '': '' @ stderr result)), w1)
         else
           (case JSON_parse E (stdout result) of
              Inl e \<Rightarrow> (Inl e, w1)
            | Inr streams \<Rightarrow>
                (case streams of
                   [] \<Rightarrow> (Inl TypeError, w1)
                 | s # rest \<Rightarrow> (Inr (aspect_of (width s) (height s)), w1))))"

definition ffmpeg_argv :: "path \<Rightarrow> path \<Rightarrow> string list" where
  "ffmpeg_argv inputFilePath outputFilePath =
     [''ffmpeg'', ''-i'', inputFilePath, ''-movflags'', ''faststart'', ''-map_metadata'', ''0'',
      ''-codec'', ''copy'', ''-f'', ''mp4'', outputFilePath]"

definition processVideoForFastStart ::
  "env \<Rightarrow> path \<Rightarrow> 'v world \<Rightarrow> (error + path) \<times> 'v world" where
  "processVideoForFastStart E inputFilePath w =
     (let outputFilePath = inputFilePath @ ''.processed.mp4'';
          result = spawn E (ffmpeg_argv inputFilePath outputFilePath) (files w);
          w1 = w\<lparr>files := files_after result\<rparr>
      in if exited result \<noteq> 0
         then (Inl (Error (''ffprobe failed with exit code '' @ show_int (exited result)
                           @ '': '' @ stderr result)), w1)
         else (Inr outputFilePath, w1))"

subsection \<open>Signing\<close>

text \<open>
  \<^verbatim>\<open>!video.videoURL\<close> holds of an absent URL and of the empty string.
  \<^verbatim>\<open>generatePresignedURL\<close> of \<^verbatim>\<open>../s3\<close> is a parameter; the spec has it
  purely computed.
\<close>

definition dbVideoToSignedVideo ::
  "env \<Rightarrow> ApiConfig \<Rightarrow> 'v video_scheme \<Rightarrow> 'v world \<Rightarrow> 'v video_scheme \<times> 'v world" where
  "dbVideoToSignedVideo E cfg v w =
     (case videoURL v of
        None \<Rightarrow> (v, w)
      | Some key \<Rightarrow>
          if key = [] then (v, w)
          else
            (v\<lparr>videoURL := Some (generatePresignedURL E cfg key (5 * 60))\<rparr>,
             console_log [LStr ''signing key:'', LStr key] w))"

subsection \<open>The upload handler\<close>

definition MAX_UPLOAD_SIZE :: nat where
  "MAX_UPLOAD_SIZE = push_bit 30 1"

definition ALLOWED_THUMBNAIL_TYPES :: "string list" where
  "ALLOWED_THUMBNAIL_TYPES = [''video/mp4'']"

text \<open>
  The body of the handler's \<^verbatim>\<open>try\<close> block. Beside its outcome and the world it
  returns the variable \<^verbatim>\<open>processedFilepath\<close>, which the \<^verbatim>\<open>finally\<close> block
  reads: it is the empty string until the remuxer has returned.
\<close>

definition uploadBody ::
  "env \<Rightarrow> ApiConfig \<Rightarrow> string \<Rightarrow> 'v video_scheme \<Rightarrow> bytes \<Rightarrow> string \<Rightarrow> path \<Rightarrow> 'v world
     \<Rightarrow> (error + 'v response) \<times> path \<times> 'v world" where
  "uploadBody E cfg uid video buffer tempFileName tempFilepath w =
     (case Bun_write E tempFilepath buffer w of
        (Inl e, w1) \<Rightarrow> (Inl e, [], w1)
      | (Inr u1, w1) \<Rightarrow>
     (case getVideoAspectRatio E tempFilepath w1 of
        (Inl e, w2) \<Rightarrow> (Inl e, [], w2)
      | (Inr aspectRatio, w2) \<Rightarrow>
     (let w3 = console_log [LStr ''uploading video'', LStr (aspectRatio @ ''/'' @ tempFileName),
                            LStr ''by user'', LStr uid] w2
      in
     (case processVideoForFastStart E tempFilepath w3 of
        (Inl e, w4) \<Rightarrow> (Inl e, [], w4)
      | (Inr processedFilepath, w4) \<Rightarrow>
     (case uploadVideoToS3 E cfg (aspectRatio @ ''/'' @ processedFilepath) processedFilepath
             ''video/mp4'' w4 of
        (Inl e, w5) \<Rightarrow> (Inl e, processedFilepath, w5)
      | (Inr u2, w5) \<Rightarrow>
     (let url = aspectRatio @ ''/'' @ processedFilepath;
          w6 = console_log [LStr ''Uploaded video to S3:'', LStr url] w5;
          video1 = video\<lparr>videoURL := Some url\<rparr>;
          w7 = updateVideo video1 w6
      in case dbVideoToSignedVideo E cfg video1 w7 of
           (signedVideo, w8) \<Rightarrow> (Inr (respondWithJSON 200 signedVideo), processedFilepath, w8)))))))"

text \<open>
  The statements inside the \<^verbatim>\<open>try\<close> of the \<^verbatim>\<open>finally\<close> block: two guarded
  deletions in sequence, where a throwing deletion leaves the block.
\<close>

definition cleanup_try :: "env \<Rightarrow> path \<Rightarrow> path \<Rightarrow> 'v world \<Rightarrow> (error + unit) \<times> 'v world" where
  "cleanup_try E tempFilepath processedFilepath w =
     (case (if file_exists w tempFilepath
            then (case file_delete E tempFilepath w of
                    (Inl e, w1) \<Rightarrow> (Inl e, w1)
                  | (Inr u, w1) \<Rightarrow> (Inr (), console_log [LStr ''Deleted temp video file''] w1))
            else (Inr (), w)) of
        (Inl e, w2) \<Rightarrow> (Inl e, w2)
      | (Inr u, w2) \<Rightarrow>
          if file_exists w2 processedFilepath
          then (case file_delete E processedFilepath w2 of
                  (Inl e, w3) \<Rightarrow> (Inl e, w3)
                | (Inr u, w3) \<Rightarrow>
                    (Inr (), console_log [LStr ''Deleted processed video file''] w3))
          else (Inr (), w2))"

text \<open>The \<^verbatim>\<open>try\<close> with its \<^verbatim>\<open>catch\<close>, which logs the error.\<close>

definition cleanup :: "env \<Rightarrow> path \<Rightarrow> path \<Rightarrow> 'v world \<Rightarrow> (error + unit) \<times> 'v world" where
  "cleanup E tempFilepath processedFilepath w =
     (case cleanup_try E tempFilepath processedFilepath w of
        (Inl err, w1) \<Rightarrow>
          (Inr (), console_log [LStr ''Failed to delete temp video file:'', LErr err] w1)
      | (Inr u, w1) \<Rightarrow> (Inr (), w1))"

text \<open>
  \<^verbatim>\<open>try { ... } finally { ... }\<close>: the finaliser runs on the world the body left; an
  exception leaving the finaliser would replace the body's outcome.
\<close>

definition try_finally ::
  "(error + 'a) \<times> path \<times> 'v world \<Rightarrow> (path \<Rightarrow> 'v world \<Rightarrow> (error + unit) \<times> 'v world)
     \<Rightarrow> (error + 'a) \<times> 'v world" where
  "try_finally outcome finaliser =
     (case outcome of
        (res, processedFilepath, w1) \<Rightarrow>
          (case finaliser processedFilepath w1 of
             (Inl e, w2) \<Rightarrow> (Inl e, w2)
           | (Inr u, w2) \<Rightarrow> (res, w2)))"

definition handlerUploadVideo ::
  "env \<Rightarrow> ApiConfig \<Rightarrow> request \<Rightarrow> 'v world \<Rightarrow> (error + 'v response) \<times> 'v world" where
  "handlerUploadVideo E cfg req w =
     (case videoId req of
        None \<Rightarrow> (Inl (BadRequestError ''Invalid video ID''), w)
      | Some vid \<Rightarrow>
     if vid = [] then (Inl (BadRequestError ''Invalid video ID''), w) else
     (case getBearerToken E (headers req) of
        Inl e \<Rightarrow> (Inl e, w)
      | Inr token \<Rightarrow>
     (case validateJWT E token (jwtSecret cfg) of
        Inl e \<Rightarrow> (Inl e, w)
      | Inr uid \<Rightarrow>
     (case getVideo w vid of
        None \<Rightarrow> (Inl (NotFoundError ''Couldn't find video''), w)
      | Some video \<Rightarrow>
     if userID video \<noteq> uid
     then (Inl (UserForbiddenError ''You do not have permission to modify this video''), w)
     else
     (case formData req of
        Inl e \<Rightarrow> (Inl e, w)
      | Inr form \<Rightarrow>
     (case map_of form ''video'' of
        Some (FormFile f) \<Rightarrow>
          if MAX_UPLOAD_SIZE < fsize f
          then (Inl (BadRequestError ''Video file is too large (max 1 GB)''), w)
          else if ftype f \<notin> set ALLOWED_THUMBNAIL_TYPES
          then (Inl (BadRequestError ''Unsupported thumbnail file type''), w)
          else
            (let buffer = arrayBuffer f;
                 randomString = base64url (randomBytes E 32);
                 tempFileName = randomString @ ''.'' @ template_nth (split_on CHR ''/'' (ftype f)) 1;
                 tempFilepath = path_join (assetsRoot cfg) tempFileName
             in try_finally (uploadBody E cfg uid video buffer tempFileName tempFilepath w)
                  (cleanup E tempFilepath))
      | _ \<Rightarrow> (Inl (BadRequestError ''No video file provided''), w)))))))"

subsection \<open>Vocabulary of the statements\<close>

text \<open>
  The classification rule as the specification words it, over exact rational
  arithmetic: the ratio within \<open>0.01\<close> of \<open>16/9\<close> is landscape, else within
  \<open>0.01\<close> of \<open>9/16\<close> portrait, else other.
\<close>

definition aspect_rule :: "rat \<Rightarrow> string" where
  "aspect_rule ratio =
     (if \<bar>ratio - 16 / 9\<bar> < 1 / 100 then ''landscape''
      else if \<bar>ratio - 9 / 16\<bar> < 1 / 100 then ''portrait''
      else ''other'')"

text \<open>The streams the probe reported: none when its output is no document.\<close>

definition video_streams :: "env \<Rightarrow> proc \<Rightarrow> stream list" where
  "video_streams E r = (case JSON_parse E (stdout r) of Inl e \<Rightarrow> [] | Inr ss \<Rightarrow> ss)"

text \<open>
  \<open>authenticated\<close>: the request names a record, carries a token that validates to the
  user \<open>uid\<close>, and the record \<open>v\<close> exists. \<open>accepted\<close>: moreover \<open>uid\<close> owns the
  record and the form holds a file \<open>f\<close> of an allowed type within the size limit, so the
  handler goes on to stage the file.
\<close>

definition authenticated ::
  "env \<Rightarrow> ApiConfig \<Rightarrow> request \<Rightarrow> 'v world \<Rightarrow> string \<Rightarrow> 'v video_scheme \<Rightarrow> bool" where
  "authenticated E cfg req w uid v \<longleftrightarrow>
     (\<exists>vid token.
        videoId req = Some vid \<and> vid \<noteq> [] \<and>
        getBearerToken E (headers req) = Inr token \<and>
        validateJWT E token (jwtSecret cfg) = Inr uid \<and>
        getVideo w vid = Some v)"

definition accepted ::
  "env \<Rightarrow> ApiConfig \<Rightarrow> request \<Rightarrow> 'v world \<Rightarrow> string \<Rightarrow> 'v video_scheme \<Rightarrow> File \<Rightarrow> bool" where
  "accepted E cfg req w uid v f \<longleftrightarrow>
     authenticated E cfg req w uid v \<and> userID v = uid \<and>
     (\<exists>form. formData req = Inr form \<and> map_of form ''video'' = Some (FormFile f)) \<and>
     fsize f \<le> MAX_UPLOAD_SIZE \<and> ftype f \<in> set ALLOWED_THUMBNAIL_TYPES"

text \<open>The two ways a request fails before staging that the specification names.\<close>

definition not_owner :: "env \<Rightarrow> ApiConfig \<Rightarrow> request \<Rightarrow> 'v world \<Rightarrow> bool" where
  "not_owner E cfg req w \<longleftrightarrow> (\<exists>uid v. authenticated E cfg req w uid v \<and> userID v \<noteq> uid)"

definition invalid_upload :: "request \<Rightarrow> bool" where
  "invalid_upload req \<longleftrightarrow>
     (\<exists>form. formData req = Inr form \<and>
        (case map_of form ''video'' of
           Some (FormFile f) \<Rightarrow> MAX_UPLOAD_SIZE < fsize f \<or> ftype f \<notin> set ALLOWED_THUMBNAIL_TYPES
         | _ \<Rightarrow> True))"

text \<open>The scratch name and path the handler computes for an accepted file.\<close>

definition tempFileName_of :: "env \<Rightarrow> File \<Rightarrow> string" where
  "tempFileName_of E f =
     base64url (randomBytes E 32) @ ''.'' @ template_nth (split_on CHR ''/'' (ftype f)) 1"

definition tempFilepath_of :: "env \<Rightarrow> ApiConfig \<Rightarrow> File \<Rightarrow> path" where
  "tempFilepath_of E cfg f = path_join (assetsRoot cfg) (tempFileName_of E f)"

subsection \<open>Concrete requests and environments\<close>

text \<open>
  A run in which everything works: two known users, a generator that yields zero bytes,
  a probe that reports a 1920 by 1080 stream, and a remuxer that copies its input to
  its output path.
\<close>

definition example_env :: env where
  "example_env =
     \<lparr>getBearerToken = (\<lambda>hs. case map_of hs ''Authorization'' of
                                 None \<Rightarrow> Inl (Error ''no token'') | Some t \<Rightarrow> Inr t),
      validateJWT = (\<lambda>token secret. if token = ''Bearer alice'' then Inr ''alice''
                                     else if token = ''Bearer bob'' then Inr ''bob''
                                     else Inl (Error ''invalid token'')),
      randomBytes = (\<lambda>n. replicate n 0),
      write_error = (\<lambda>p. None),
      delete_error = (\<lambda>p. None),
      spawn = (\<lambda>argv fs. \<lparr>exited = 0, stdout = ''{}'', stderr = [],
                 files_after = (if hd argv = ''ffmpeg'' then fs(last argv := fs (argv ! 2)) else fs)\<rparr>),
      JSON_parse = (\<lambda>s. Inr [\<lparr>width = Num 1920, height = Num 1080\<rparr>]),
      upload_error = (\<lambda>key p. None),
      generatePresignedURL = (\<lambda>cfg key ttl. ''signed:'' @ key @ ''?ttl='' @ show_nat ttl)\<rparr>"

definition example_cfg :: ApiConfig where
  "example_cfg = \<lparr>jwtSecret = ''secret'', assetsRoot = ''./assets''\<rparr>"

definition example_video :: video where
  "example_video =
     \<lparr>id' = ''v1'', userID = ''alice'', videoURL = None, thumbnailURL = Some ''thumb''\<rparr>"

definition example_file :: File where
  "example_file = \<lparr>fsize = 3, ftype = ''video/mp4'', arrayBuffer = [1, 2, 3]\<rparr>"

definition example_request :: request where
  "example_request =
     \<lparr>videoId = Some ''v1'', headers = [(''Authorization'', ''Bearer alice'')],
      formData = Inr [(''video'', FormFile example_file)]\<rparr>"

definition example_world :: "unit world" where
  "example_world =
     \<lparr>files = Map.empty, bucket = Map.empty, db = [''v1'' \<mapsto> example_video], console = []\<rparr>"

text \<open>Requests the handler rejects: another user's, and three with a bad file part.\<close>

definition bob_request :: request where
  "bob_request = example_request\<lparr>headers := [(''Authorization'', ''Bearer bob'')]\<rparr>"

definition no_file_request :: request where
  "no_file_request = example_request\<lparr>formData := Inr [(''title'', FormString ''holiday'')]\<rparr>"

definition oversize_request :: request where
  "oversize_request =
     example_request\<lparr>formData := Inr [(''video'', FormFile (example_file\<lparr>fsize := 1073741825\<rparr>))]\<rparr>"

definition wrong_type_request :: request where
  "wrong_type_request =
     example_request\<lparr>formData := Inr [(''video'', FormFile (example_file\<lparr>ftype := ''image/png''\<rparr>))]\<rparr>"

text \<open>
  A remuxer that opens its output file and then gives up with exit code 1, as ffmpeg
  does when it cannot write the header of the container.
\<close>

definition remux_failing_env :: env where
  "remux_failing_env =
     example_env\<lparr>spawn := (\<lambda>argv fs.
        if hd argv = ''ffmpeg''
        then \<lparr>exited = 1, stdout = [], stderr = ''Could not write header'',
              files_after = fs(last argv \<mapsto> [])\<rparr>
        else \<lparr>exited = 0, stdout = ''{}'', stderr = [], files_after = fs\<rparr>)\<rparr>"

text \<open>A probe that exits with code 1, on a file system that refuses every deletion.\<close>

definition probe_failing_env :: env where
  "probe_failing_env =
     example_env\<lparr>spawn := (\<lambda>argv fs.
                     \<lparr>exited = 1, stdout = [], stderr = ''Invalid data found'', files_after = fs\<rparr>),
                  delete_error := (\<lambda>p. Some (Error ''EPERM''))\<rparr>"

text \<open>A probe that finds no video stream.\<close>

definition no_stream_env :: env where
  "no_stream_env = example_env\<lparr>JSON_parse := (\<lambda>s. Inr [])\<rparr>"

text \<open>A file system that refuses to delete the staged file of the run, and no other.\<close>

definition delete_failing_env :: env where
  "delete_failing_env =
     example_env\<lparr>delete_error := (\<lambda>p.
        if p = ''assets/AAAAAAAAAAAAAAAAAAAAAAAAAAAAAAAAAAAAAAAAAAA.mp4'' then Some (Error ''EPERM'')
        else None)\<rparr>"

section \<open>Rounding to binary64\<close>

text \<open>
  The facts about the rounding that the classification needs: the exponent is the
  binary logarithm, rounding is monotone, and a rounding is certified by its distance
  to the grid point.
\<close>

lemma ilog2_bounds:
  assumes "0 < q"
  shows "2 powi (ilog2 q) \<le> q \<and> q < 2 powi (ilog2 q + 1)"
proof (cases "1 \<le> q")
  case True
  define n where "n = \<lfloor>q\<rfloor>"
  have n: "0 < n" using True by (simp add: n_def)
  from bitlen_bounds[OF n] have b: "2 ^ nat (bitlen n - 1) \<le> n" "n < 2 ^ nat (bitlen n)" by auto
  have bl: "1 \<le> bitlen n" using n by (simp add: bitlen_alt_def)
  have il: "ilog2 q = bitlen n - 1" using True by (simp add: ilog2_def n_def)
  have "(2::rat) powi (bitlen n - 1) = of_int (2 ^ nat (bitlen n - 1))"
    using bl by (simp add: power_int_nonneg_exp)
  also have "\<dots> \<le> of_int n" using b(1) by (simp only: of_int_le_iff)
  also have "\<dots> \<le> q" by (simp add: n_def)
  finally have lo: "2 powi (ilog2 q) \<le> q" by (simp add: il)
  have "q < of_int (n + 1)" using floor_correct[of q] by (simp add: n_def)
  also have "\<dots> \<le> of_int (2 ^ nat (bitlen n))" using b(2) by (simp only: of_int_le_iff)
  also have "\<dots> = (2::rat) powi (bitlen n)" using bl by (simp add: power_int_nonneg_exp)
  finally have hi: "q < 2 powi (ilog2 q + 1)" by (simp add: il)
  show ?thesis using lo hi by simp
next
  case False
  define y where "y = 1 / q"
  have y: "1 < y" using False assms by (simp add: y_def)
  define m where "m = \<lceil>y\<rceil> - 1"
  have m: "0 < m" using y by (simp add: m_def less_ceiling_iff)
  from bitlen_bounds[OF m] have b: "2 ^ nat (bitlen m - 1) \<le> m" "m < 2 ^ nat (bitlen m)" by auto
  have bl: "1 \<le> bitlen m" using m by (simp add: bitlen_alt_def)
  have il: "ilog2 q = - bitlen m" using False by (simp add: ilog2_def m_def y_def)
  have "y \<le> of_int (m + 1)" by (simp add: m_def)
  also have "\<dots> \<le> of_int (2 ^ nat (bitlen m))" using b(2) by (simp only: of_int_le_iff)
  also have "\<dots> = (2::rat) powi (bitlen m)" using bl by (simp add: power_int_nonneg_exp)
  finally have "1 / q \<le> 2 powi (bitlen m)" by (simp add: y_def)
  then have lo: "2 powi (ilog2 q) \<le> q"
    using assms by (simp add: il power_int_minus field_simps)
  have "(2::rat) powi (bitlen m - 1) = of_int (2 ^ nat (bitlen m - 1))"
    using bl by (simp add: power_int_nonneg_exp)
  also have "\<dots> \<le> of_int m" using b(1) by (simp only: of_int_le_iff)
  also have "\<dots> < y" using ceiling_correct[of y] by (simp add: m_def)
  finally have lt: "2 powi (bitlen m - 1) < 1 / q" by (simp add: y_def)
  define P :: rat where "P = 2 powi (bitlen m - 1)"
  have P: "0 < P" by (simp add: P_def)
  have "q * P < 1" using lt assms by (simp add: P_def field_simps)
  then have qP: "q < 1 / P" using P by (simp add: field_simps)
  have "ilog2 q + 1 = - (bitlen m - 1)" by (simp add: il)
  then have "(2::rat) powi (ilog2 q + 1) = 1 / P"
    by (simp only: power_int_minus_divide P_def)
  then have hi: "q < 2 powi (ilog2 q + 1)" using qP by simp
  show ?thesis using lo hi by simp
qed

lemma ilog2_unique:
  assumes "2 powi e \<le> q" "q < 2 powi (e + 1)"
  shows "ilog2 q = e"
proof -
  have q: "0 < q" using assms(1) by (rule less_le_trans[rotated]) simp
  from ilog2_bounds[OF q] have b: "2 powi (ilog2 q) \<le> q" "q < 2 powi (ilog2 q + 1)" by auto
  have "(2::rat) powi (ilog2 q) < 2 powi (e + 1)" using b(1) assms(2) by simp
  then have 1: "ilog2 q < e + 1"
    using power_int_increasing[of "e + 1" "ilog2 q" "2::rat"] by (cases "ilog2 q < e + 1") auto
  have "(2::rat) powi e < 2 powi (ilog2 q + 1)" using b(2) assms(1) by simp
  then have 2: "e < ilog2 q + 1"
    using power_int_increasing[of "ilog2 q + 1" e "2::rat"] by (cases "e < ilog2 q + 1") auto
  show ?thesis using 1 2 by simp
qed

lemma round_half_even_unique:
  assumes "\<bar>y - of_int m\<bar> < 1 / 2"
  shows "round_half_even y = m"
proof -
  have "\<lfloor>y\<rfloor> = m \<or> \<lfloor>y\<rfloor> = m - 1"
    using assms by (cases "of_int m \<le> y") (auto intro!: floor_unique simp: abs_if split: if_splits)
  then show ?thesis
  proof
    assume f: "\<lfloor>y\<rfloor> = m"
    then have "of_int m \<le> y" using of_int_floor_le[of y] by simp
    then show ?thesis using assms by (simp add: round_half_even_def f Let_def)
  next
    assume f: "\<lfloor>y\<rfloor> = m - 1"
    then have "y < of_int m" using floor_less_iff[of y m] by simp
    then show ?thesis using assms by (auto simp add: round_half_even_def f Let_def)
  qed
qed

lemma round_half_even_bounds:
  "of_int (round_half_even y) - 1 / 2 \<le> y \<and> y \<le> of_int (round_half_even y) + 1 / 2"
proof -
  have "of_int \<lfloor>y\<rfloor> \<le> y" "y < of_int \<lfloor>y\<rfloor> + 1"
    using floor_correct[of y] by auto
  then show ?thesis
    unfolding round_half_even_def Let_def by (auto; linarith)
qed

lemma round_half_even_mono:
  assumes "x \<le> y"
  shows "round_half_even x \<le> round_half_even y"
proof (cases "x = y")
  case True
  then show ?thesis by simp
next
  case False
  then have "x < y" using assms by simp
  moreover have "of_int (round_half_even x) - 1 / 2 \<le> x"
    using round_half_even_bounds[of x] by simp
  moreover have "y \<le> of_int (round_half_even y) + 1 / 2"
    using round_half_even_bounds[of y] by simp
  ultimately have "(of_int (round_half_even x) :: rat) < of_int (round_half_even y) + 1"
    by linarith
  then have "(of_int (round_half_even x) :: rat) < of_int (round_half_even y + 1)" by simp
  then have "round_half_even x < round_half_even y + 1" by (simp only: of_int_less_iff)
  then show ?thesis by simp
qed

lemma round_half_even_of_int [simp]: "round_half_even (of_int n) = n"
  by (rule round_half_even_unique) simp

lemma round_half_even_ge: "of_int a \<le> y \<Longrightarrow> a \<le> round_half_even y"
  using round_half_even_mono[of "of_int a" y] by simp

lemma round_half_even_le: "y \<le> of_int b \<Longrightarrow> round_half_even y \<le> b"
  using round_half_even_mono[of y "of_int b"] by simp

lemma round_half_even_zero [simp]: "round_half_even 0 = 0"
  using round_half_even_unique[of 0 0] by simp

lemma round64_pos_zero [simp]: "round64_pos 0 = 0"
  by (simp add: round64_pos_def Let_def)

lemma pow53: "9007199254740992 * 2 powi (e - 52) = (2::rat) powi (e + 1)"
proof -
  have "(2::rat) powi (53 + (e - 52)) = 2 powi 53 * 2 powi (e - 52)"
    by (rule power_int_add) simp
  then show ?thesis by (simp add: add.commute)
qed

lemma pow52: "4503599627370496 * 2 powi (e - 52) = (2::rat) powi e"
proof -
  have "(2::rat) powi (52 + (e - 52)) = 2 powi 52 * 2 powi (e - 52)"
    by (rule power_int_add) simp
  then show ?thesis by simp
qed

lemma pow53_div: "(2::rat) powi (e + 1) / 2 powi (e - 52) = 9007199254740992"
  by (simp add: pow53[of e, symmetric])

lemma pow52_div: "(2::rat) powi e / 2 powi (e - 52) = 4503599627370496"
  by (simp add: pow52[of e, symmetric])

lemma round64_pos_nonneg: "0 \<le> q \<Longrightarrow> 0 \<le> round64_pos q"
  unfolding round64_pos_def Let_def
  by (intro mult_nonneg_nonneg) (auto intro: round_half_even_ge)

lemma round64_pos_expo:
  "round64_pos q = of_int (round_half_even (q / 2 powi (expo q - 52))) * 2 powi (expo q - 52)"
  by (simp add: round64_pos_def Let_def)

lemma expo_mono:
  assumes "0 < x" "x \<le> y"
  shows "expo x \<le> expo y"
proof -
  have y: "0 < y" using assms by simp
  have "(2::rat) powi (ilog2 x) \<le> x" using ilog2_bounds[OF assms(1)] by simp
  also have "x \<le> y" by fact
  also have "y < 2 powi (ilog2 y + 1)" using ilog2_bounds[OF y] by simp
  finally have "ilog2 x < ilog2 y + 1"
    using power_int_increasing[of "ilog2 y + 1" "ilog2 x" "2::rat"] by (cases "ilog2 x < ilog2 y + 1") auto
  then show ?thesis by (simp add: expo_def)
qed

lemma round64_pos_mono_pos:
  assumes "0 < x" "x \<le> y"
  shows "round64_pos x \<le> round64_pos y"
proof (cases "expo x = expo y")
  case True
  have "x / 2 powi (expo y - 52) \<le> y / 2 powi (expo y - 52)"
    using assms(2) by (simp add: divide_right_mono)
  then have "round_half_even (x / 2 powi (expo y - 52)) \<le> round_half_even (y / 2 powi (expo y - 52))"
    by (rule round_half_even_mono)
  then show ?thesis
    unfolding round64_pos_expo True by (simp add: mult_right_mono)
next
  case False
  then have lt: "expo x < expo y" using expo_mono[OF assms] by simp
  have y: "0 < y" using assms by simp
  have ey: "expo y = ilog2 y" using lt by (auto simp: expo_def max_def split: if_splits)
  have ex: "ilog2 x \<le> expo x" by (simp add: expo_def)
  have "x < 2 powi (ilog2 x + 1)" using ilog2_bounds[OF assms(1)] by simp
  also have "\<dots> \<le> 2 powi (expo x + 1)" using ex by (intro power_int_increasing) auto
  finally have xu: "x < 2 powi (expo x + 1)" .
  have "x / 2 powi (expo x - 52) \<le> 2 powi (expo x + 1) / 2 powi (expo x - 52)"
    using xu by (simp add: divide_right_mono)
  also have "\<dots> = of_int (2 ^ 53)" by (simp add: pow53_div)
  finally have "round_half_even (x / 2 powi (expo x - 52)) \<le> 2 ^ 53"
    by (rule round_half_even_le)
  then have "(of_int (round_half_even (x / 2 powi (expo x - 52))) :: rat) \<le> of_int (2 ^ 53)"
    by (simp only: of_int_le_iff)
  then have "round64_pos x \<le> of_int (2 ^ 53) * 2 powi (expo x - 52)"
    unfolding round64_pos_expo by (simp add: mult_right_mono)
  also have "\<dots> = 2 powi (expo x + 1)" by (simp add: pow53)
  also have "\<dots> \<le> 2 powi (expo y)" using lt by (intro power_int_increasing) auto
  finally have 1: "round64_pos x \<le> 2 powi (expo y)" .
  have yl: "2 powi (expo y) \<le> y" using ilog2_bounds[OF y] by (simp add: ey)
  have "(of_int (2 ^ 52) :: rat) = 2 powi (expo y) / 2 powi (expo y - 52)" by (simp add: pow52_div)
  also have "\<dots> \<le> y / 2 powi (expo y - 52)" using yl by (simp add: divide_right_mono)
  finally have "2 ^ 52 \<le> round_half_even (y / 2 powi (expo y - 52))"
    by (rule round_half_even_ge)
  then have "(of_int (2 ^ 52) :: rat) \<le> of_int (round_half_even (y / 2 powi (expo y - 52)))"
    by (simp only: of_int_le_iff)
  then have "of_int (2 ^ 52) * 2 powi (expo y - 52) \<le> round64_pos y"
    unfolding round64_pos_expo by (simp add: mult_right_mono)
  moreover have "(of_int (2 ^ 52) :: rat) * 2 powi (expo y - 52) = 2 powi (expo y)"
    by (simp add: pow52)
  ultimately have 2: "2 powi (expo y) \<le> round64_pos y" by simp
  show ?thesis using 1 2 by simp
qed

lemma round64_pos_mono:
  assumes "0 \<le> x" "x \<le> y"
  shows "round64_pos x \<le> round64_pos y"
proof (cases "x = 0")
  case True
  then show ?thesis using round64_pos_nonneg[of y] assms by simp
next
  case False
  then show ?thesis using assms round64_pos_mono_pos[of x y] by simp
qed

lemma round64_pos_eqI:
  assumes "2 powi e \<le> q" "q < 2 powi (e + 1)" "- 1022 \<le> e"
    and "\<bar>q / 2 powi (e - 52) - of_int m\<bar> < 1 / 2"
  shows "round64_pos q = of_int m * 2 powi (e - 52)"
proof -
  have "expo q = e" using ilog2_unique[OF assms(1,2)] assms(3) by (simp add: expo_def)
  then show ?thesis
    unfolding round64_pos_expo using round_half_even_unique[OF assms(4)] by simp
qed

subsection \<open>The classification against the exact rule\<close>

text \<open>
  The three constants of the classification as binary64 values, and the two sides of
  the comparison with the tolerance: a difference of at least the rounded tolerance is
  never below it after rounding, a difference of at most its predecessor always is.
\<close>

lemma number_abs_round64:
  "number_abs (round64 q) = (if 2 ^ 1024 \<le> round64_pos \<bar>q\<bar> then PInf else Num (round64_pos \<bar>q\<bar>))"
  using round64_pos_nonneg[of "\<bar>q\<bar>"] by (simp add: round64_def Let_def)

lemma round64_nonneg:
  "0 \<le> q \<Longrightarrow> round64 q = (if 2 ^ 1024 \<le> round64_pos q then PInf else Num (round64_pos q))"
  by (auto simp: round64_def Let_def)

lemma rnd_16_9: "round64_pos (16 / 9) = 2001599834386887 / 1125899906842624"
  using round64_pos_eqI[of 0 "16 / 9" 8006399337547548] by simp

lemma rnd_tol: "round64_pos (1 / 100) = 5764607523034235 / 576460752303423488"
  using round64_pos_eqI[of "-7" "1 / 100" 5764607523034235] by simp

lemma rnd_tol_fix: "round64_pos (5764607523034235 / 576460752303423488) = 5764607523034235 / 576460752303423488"
  using round64_pos_eqI[of "-7" "5764607523034235 / 576460752303423488" 5764607523034235] by simp

lemma rnd_tol_pred: "round64_pos (5764607523034234 / 576460752303423488) = 5764607523034234 / 576460752303423488"
  using round64_pos_eqI[of "-7" "5764607523034234 / 576460752303423488" 5764607523034234] by simp

lemma rnd_9_16: "round64_pos (9 / 16) = 9 / 16"
  using round64_pos_eqI[of "-1" "9 / 16" 5066549580791808] by simp

lemma const_16_9: "number_div (Num 16) (Num 9) = Num (2001599834386887 / 1125899906842624)"
  using rnd_16_9 by (simp add: round64_nonneg)

lemma const_9_16: "number_div (Num 9) (Num 16) = Num (9 / 16)"
  using rnd_9_16 by (simp add: round64_nonneg)

lemma const_tol: "round64 (1 / 100) = Num (5764607523034235 / 576460752303423488)"
  using rnd_tol by (simp add: round64_nonneg)

lemma tolerance_far:
  assumes "5764607523034235 / 576460752303423488 \<le> \<bar>y\<bar>"
  shows "\<not> number_less (number_abs (round64 y)) (Num (5764607523034235 / 576460752303423488))"
proof -
  have "round64_pos (5764607523034235 / 576460752303423488) \<le> round64_pos \<bar>y\<bar>"
    using assms by (intro round64_pos_mono) auto
  then show ?thesis using rnd_tol_fix by (simp add: number_abs_round64)
qed

lemma tolerance_near:
  assumes "\<bar>y\<bar> \<le> 5764607523034234 / 576460752303423488"
  shows "number_less (number_abs (round64 y)) (Num (5764607523034235 / 576460752303423488))"
proof -
  have "round64_pos \<bar>y\<bar> \<le> round64_pos (5764607523034234 / 576460752303423488)"
    using assms by (intro round64_pos_mono) auto
  then have le: "round64_pos \<bar>y\<bar> \<le> 5764607523034234 / 576460752303423488"
    using rnd_tol_pred by simp
  then have "round64_pos \<bar>y\<bar> < 2 ^ 1024" by simp
  then show ?thesis using le by (simp add: number_abs_round64)
qed

text \<open>
  A ratio of integers that lies strictly on one side of a fraction \<open>a/b\<close> keeps a
  distance of \<open>1/(b h)\<close> from it. This gap is far wider than a rounding error as
  long as the height is below \<open>2\<^sup>3\<^sup>1\<close>.
\<close>

lemma ratio_gap_below:
  fixes w h a b H :: int
  assumes "0 < h" "h \<le> H" "0 < b" "of_int w / of_int h < (of_int a / of_int b :: rat)"
  shows "(of_int w / of_int h :: rat) \<le> of_int a / of_int b - 1 / (of_int b * of_int H)"
proof -
  have "(of_int w * of_int b :: rat) < of_int a * of_int h"
    using assms by (simp add: field_simps)
  then have "(of_int (w * b) :: rat) < of_int (a * h)" by simp
  then have "w * b < a * h" by (simp only: of_int_less_iff)
  then have "w * b + 1 \<le> a * h" by simp
  then have "(of_int (w * b + 1) :: rat) \<le> of_int (a * h)" by (simp only: of_int_le_iff)
  then have 1: "(of_int w * of_int b + 1 :: rat) \<le> of_int a * of_int h" by simp
  have bh: "(0::rat) < of_int b * of_int h" using assms by (auto intro!: mult_pos_pos)
  have "(of_int w * of_int b + 1) / (of_int b * of_int h) \<le> (of_int a * of_int h) / (of_int b * of_int h :: rat)"
    using 1 bh by (intro divide_right_mono) auto
  moreover have "(of_int w * of_int b + 1) / (of_int b * of_int h) = (of_int w / of_int h :: rat) + 1 / (of_int b * of_int h)"
    using assms by (simp add: add_divide_distrib)
  moreover have "(of_int a * of_int h) / (of_int b * of_int h :: rat) = of_int a / of_int b"
    using assms by simp
  ultimately have 2: "(of_int w / of_int h :: rat) + 1 / (of_int b * of_int h) \<le> of_int a / of_int b"
    by simp
  have "(of_int b * of_int h :: rat) \<le> of_int b * of_int H"
    using assms by (simp add: mult_left_mono)
  then have "(1 / (of_int b * of_int H) :: rat) \<le> 1 / (of_int b * of_int h)"
    using assms by (intro divide_left_mono) (auto intro!: mult_pos_pos)
  then show ?thesis using 2 by linarith
qed

lemma ratio_gap_above:
  fixes w h a b H :: int
  assumes "0 < h" "h \<le> H" "0 < b" "(of_int a / of_int b :: rat) < of_int w / of_int h"
  shows "(of_int a / of_int b :: rat) + 1 / (of_int b * of_int H) \<le> of_int w / of_int h"
proof -
  have "(of_int a * of_int h :: rat) < of_int w * of_int b"
    using assms by (simp add: field_simps)
  then have "(of_int (a * h) :: rat) < of_int (w * b)" by simp
  then have "a * h < w * b" by (simp only: of_int_less_iff)
  then have "a * h + 1 \<le> w * b" by simp
  then have "(of_int (a * h + 1) :: rat) \<le> of_int (w * b)" by (simp only: of_int_le_iff)
  then have 1: "(of_int a * of_int h + 1 :: rat) \<le> of_int w * of_int b" by simp
  have bh: "(0::rat) < of_int b * of_int h" using assms by (auto intro!: mult_pos_pos)
  have "(of_int a * of_int h + 1) / (of_int b * of_int h) \<le> (of_int w * of_int b) / (of_int b * of_int h :: rat)"
    using 1 bh by (intro divide_right_mono) auto
  moreover have "(of_int a * of_int h + 1) / (of_int b * of_int h) = (of_int a / of_int b :: rat) + 1 / (of_int b * of_int h)"
    using assms by (simp add: add_divide_distrib)
  moreover have "(of_int w * of_int b) / (of_int b * of_int h :: rat) = of_int w / of_int h"
    using assms by simp
  ultimately have 2: "(of_int a / of_int b :: rat) + 1 / (of_int b * of_int h) \<le> of_int w / of_int h"
    by simp
  have "(of_int b * of_int h :: rat) \<le> of_int b * of_int H"
    using assms by (simp add: mult_left_mono)
  then have "(1 / (of_int b * of_int H) :: rat) \<le> 1 / (of_int b * of_int h)"
    using assms by (intro divide_left_mono) (auto intro!: mult_pos_pos)
  then show ?thesis using 2 by linarith
qed

lemma rnd_b_hi: "round64_pos (1609 / 900) = 8051435333821253 / 4503599627370496"
  using round64_pos_eqI[of 0 "1609 / 900" 8051435333821253] by simp

lemma rnd_b_lo: "round64_pos (1591 / 900) = 7961363341273843 / 4503599627370496"
  using round64_pos_eqI[of 0 "1591 / 900" 7961363341273843] by simp

lemma rnd_p_hi: "round64_pos (229 / 400) = 5156621573339218 / 9007199254740992"
  using round64_pos_eqI[of "-1" "229 / 400" 5156621573339218] by simp

lemma rnd_p_lo: "round64_pos (221 / 400) = 4976477588244398 / 9007199254740992"
  using round64_pos_eqI[of "-1" "221 / 400" 4976477588244398] by simp

lemma rnd_l_hi: "round64_pos (1609 / 900 - 1 / (900 * 2 ^ 31)) = 8051435333818923 / 4503599627370496"
  using round64_pos_eqI[of 0 "1609 / 900 - 1 / (900 * 2 ^ 31)" 8051435333818923] by simp

lemma rnd_l_lo: "round64_pos (1591 / 900 + 1 / (900 * 2 ^ 31)) = 7961363341276174 / 4503599627370496"
  using round64_pos_eqI[of 0 "1591 / 900 + 1 / (900 * 2 ^ 31)" 7961363341276174] by simp

lemma rnd_q_hi: "round64_pos (229 / 400 - 1 / (400 * 2 ^ 31)) = 5156621573328732 / 9007199254740992"
  using round64_pos_eqI[of "-1" "229 / 400 - 1 / (400 * 2 ^ 31)" 5156621573328732] by simp

lemma rnd_q_lo: "round64_pos (221 / 400 + 1 / (400 * 2 ^ 31)) = 4976477588254884 / 9007199254740992"
  using round64_pos_eqI[of "-1" "221 / 400 + 1 / (400 * 2 ^ 31)" 4976477588254884] by simp

lemma aspect_of_PInf:
  "h \<noteq> 0 \<Longrightarrow> round64 (w / h) = PInf \<Longrightarrow> aspect_of (Num w) (Num h) = ''other''"
  using const_16_9 const_9_16 const_tol by (simp add: aspect_of_def Let_def)

lemma aspect_of_Num:
  assumes "h \<noteq> 0" "round64 (w / h) = Num r"
  shows "aspect_of (Num w) (Num h) =
     (if number_less (number_abs (round64 (r - 2001599834386887 / 1125899906842624)))
           (Num (5764607523034235 / 576460752303423488)) then ''landscape''
      else if number_less (number_abs (round64 (r - 9 / 16)))
           (Num (5764607523034235 / 576460752303423488)) then ''portrait''
      else ''other'')"
  using assms const_16_9 const_9_16 const_tol by (simp add: aspect_of_def Let_def)

lemma aspect_of_int:
  fixes w h :: int
  assumes "0 \<le> w" "0 < h" "h < 2 ^ 31"
  shows "aspect_of (Num (of_int w)) (Num (of_int h)) = aspect_rule (of_int w / of_int h)"
proof -
  define x :: rat where "x = of_int w / of_int h"
  have x0: "0 \<le> x" using assms by (simp add: x_def)
  have h0: "(of_int h :: rat) \<noteq> 0" using assms by simp
  have hH: "h \<le> 2 ^ 31" using assms by simp
  define r where "r = round64_pos x"
  have r64: "round64 x = (if 2 ^ 1024 \<le> r then PInf else Num r)"
    using round64_nonneg[OF x0] by (simp add: r_def)
  consider (z1) "1609 / 900 \<le> x" | (z2) "1591 / 900 < x" "x < 1609 / 900"
    | (z3) "229 / 400 \<le> x" "x \<le> 1591 / 900" | (z4) "221 / 400 < x" "x < 229 / 400"
    | (z5) "x \<le> 221 / 400"
    by linarith
  then have "aspect_of (Num (of_int w)) (Num (of_int h)) = aspect_rule x"
  proof cases
    case z1
    have ex: "aspect_rule x = ''other''" using z1 by (simp add: aspect_rule_def)
    have "round64_pos (1609 / 900) \<le> r" unfolding r_def using z1 by (intro round64_pos_mono) auto
    then have rlo: "8051435333821253 / 4503599627370496 \<le> r" using rnd_b_hi by simp
    show ?thesis
    proof (cases "2 ^ 1024 \<le> r")
      case True
      then show ?thesis using aspect_of_PInf[OF h0, of "of_int w"] r64 ex by (simp add: x_def)
    next
      case False
      then have n: "round64 (of_int w / of_int h) = Num r" using r64 by (simp add: x_def)
      have "\<not> number_less (number_abs (round64 (r - 2001599834386887 / 1125899906842624)))
                (Num (5764607523034235 / 576460752303423488))"
        using rlo by (intro tolerance_far) simp
      moreover have "\<not> number_less (number_abs (round64 (r - 9 / 16)))
                (Num (5764607523034235 / 576460752303423488))"
        using rlo by (intro tolerance_far) simp
      ultimately show ?thesis using aspect_of_Num[OF h0 n] ex by simp
    qed
  next
    case z2
    have ex: "aspect_rule x = ''landscape''" using z2 by (simp add: aspect_rule_def abs_if)
    have "x \<le> 1609 / 900 - 1 / (900 * 2 ^ 31)"
      using ratio_gap_below[OF assms(2) hH, of 900 w 1609] z2 by (simp add: x_def)
    then have "r \<le> round64_pos (1609 / 900 - 1 / (900 * 2 ^ 31))"
      unfolding r_def using x0 by (intro round64_pos_mono) auto
    then have rhi: "r \<le> 8051435333818923 / 4503599627370496" using rnd_l_hi by simp
    have "1591 / 900 + 1 / (900 * 2 ^ 31) \<le> x"
      using ratio_gap_above[OF assms(2) hH, of 900 1591 w] z2 by (simp add: x_def)
    then have "round64_pos (1591 / 900 + 1 / (900 * 2 ^ 31)) \<le> r"
      unfolding r_def by (intro round64_pos_mono) auto
    then have rlo: "7961363341276174 / 4503599627370496 \<le> r" using rnd_l_lo by simp
    have n: "round64 (of_int w / of_int h) = Num r" using r64 rhi by (simp add: x_def)
    have "number_less (number_abs (round64 (r - 2001599834386887 / 1125899906842624)))
                (Num (5764607523034235 / 576460752303423488))"
      using rlo rhi by (intro tolerance_near) linarith
    then show ?thesis using aspect_of_Num[OF h0 n] ex by simp
  next
    case z3
    have ex: "aspect_rule x = ''other''" using z3 by (simp add: aspect_rule_def abs_if)
    have "r \<le> round64_pos (1591 / 900)" unfolding r_def using z3 x0 by (intro round64_pos_mono) auto
    then have rhi: "r \<le> 7961363341273843 / 4503599627370496" using rnd_b_lo by simp
    have "round64_pos (229 / 400) \<le> r" unfolding r_def using z3 by (intro round64_pos_mono) auto
    then have rlo: "5156621573339218 / 9007199254740992 \<le> r" using rnd_p_hi by simp
    have n: "round64 (of_int w / of_int h) = Num r" using r64 rhi by (simp add: x_def)
    have "\<not> number_less (number_abs (round64 (r - 2001599834386887 / 1125899906842624)))
                (Num (5764607523034235 / 576460752303423488))"
      using rhi by (intro tolerance_far) simp
    moreover have "\<not> number_less (number_abs (round64 (r - 9 / 16)))
                (Num (5764607523034235 / 576460752303423488))"
      using rlo by (intro tolerance_far) simp
    ultimately show ?thesis using aspect_of_Num[OF h0 n] ex by simp
  next
    case z4
    have ex: "aspect_rule x = ''portrait''" using z4 by (simp add: aspect_rule_def abs_if)
    have "x \<le> 229 / 400 - 1 / (400 * 2 ^ 31)"
      using ratio_gap_below[OF assms(2) hH, of 400 w 229] z4 by (simp add: x_def)
    then have "r \<le> round64_pos (229 / 400 - 1 / (400 * 2 ^ 31))"
      unfolding r_def using x0 by (intro round64_pos_mono) auto
    then have rhi: "r \<le> 5156621573328732 / 9007199254740992" using rnd_q_hi by simp
    have "221 / 400 + 1 / (400 * 2 ^ 31) \<le> x"
      using ratio_gap_above[OF assms(2) hH, of 400 221 w] z4 by (simp add: x_def)
    then have "round64_pos (221 / 400 + 1 / (400 * 2 ^ 31)) \<le> r"
      unfolding r_def by (intro round64_pos_mono) auto
    then have rlo: "4976477588254884 / 9007199254740992 \<le> r" using rnd_q_lo by simp
    have n: "round64 (of_int w / of_int h) = Num r" using r64 rhi by (simp add: x_def)
    have "\<not> number_less (number_abs (round64 (r - 2001599834386887 / 1125899906842624)))
                (Num (5764607523034235 / 576460752303423488))"
      using rhi by (intro tolerance_far) simp
    moreover have "number_less (number_abs (round64 (r - 9 / 16)))
                (Num (5764607523034235 / 576460752303423488))"
      using rlo rhi by (intro tolerance_near) linarith
    ultimately show ?thesis using aspect_of_Num[OF h0 n] ex by simp
  next
    case z5
    have ex: "aspect_rule x = ''other''" using z5 by (simp add: aspect_rule_def abs_if)
    have "r \<le> round64_pos (221 / 400)" unfolding r_def using z5 x0 by (intro round64_pos_mono) auto
    then have rhi: "r \<le> 4976477588244398 / 9007199254740992" using rnd_p_lo by simp
    have n: "round64 (of_int w / of_int h) = Num r" using r64 rhi by (simp add: x_def)
    have "\<not> number_less (number_abs (round64 (r - 2001599834386887 / 1125899906842624)))
                (Num (5764607523034235 / 576460752303423488))"
      using rhi by (intro tolerance_far) simp
    moreover have "\<not> number_less (number_abs (round64 (r - 9 / 16)))
                (Num (5764607523034235 / 576460752303423488))"
      using rhi by (intro tolerance_far) simp
    ultimately show ?thesis using aspect_of_Num[OF h0 n] ex by simp
  qed
  then show ?thesis by (simp add: x_def)
qed

section \<open>The handler\<close>

subsection \<open>What each step leaves unchanged\<close>

lemma handler_accepted:
  "accepted E cfg req w uid v f \<Longrightarrow>
   handlerUploadVideo E cfg req w =
     try_finally (uploadBody E cfg uid v (arrayBuffer f) (tempFileName_of E f) (tempFilepath_of E cfg f) w)
       (cleanup E (tempFilepath_of E cfg f))"
  unfolding accepted_def authenticated_def handlerUploadVideo_def tempFileName_of_def tempFilepath_of_def
  by (auto simp: Let_def)

lemma handler_success_accepted:
  "handlerUploadVideo E cfg req w = (Inr resp, w') \<Longrightarrow> \<exists>uid v f. accepted E cfg req w uid v f"
  unfolding accepted_def authenticated_def handlerUploadVideo_def
  by (auto split: option.splits sum.splits if_splits form_value.splits)

lemma cleanup_never_raises: "fst (cleanup E t p w) = Inr ()"
  unfolding cleanup_def by (auto split: prod.splits sum.splits)

lemma cleanup_frame:
  "db (snd (cleanup E t p w)) = db w \<and> bucket (snd (cleanup E t p w)) = bucket w"
  unfolding cleanup_def cleanup_try_def file_delete_def console_log_def
  by (auto split: prod.splits sum.splits option.splits if_splits)

lemma Bun_write_frame:
  "Bun_write E p b w = (r, w1) \<Longrightarrow> db w1 = db w \<and> bucket w1 = bucket w"
  unfolding Bun_write_def by (auto split: option.splits)

lemma getVideoAspectRatio_frame:
  "getVideoAspectRatio E p w = (r, w1) \<Longrightarrow> db w1 = db w \<and> bucket w1 = bucket w \<and> console w1 = console w"
  unfolding getVideoAspectRatio_def by (auto simp: Let_def split: sum.splits list.splits if_splits)

lemma aspect_of_cases: "aspect_of a b \<in> {''landscape'', ''portrait'', ''other''}"
  unfolding aspect_of_def by (simp add: Let_def)

lemma getVideoAspectRatio_Inr:
  "getVideoAspectRatio E p w = (Inr a, w1) \<Longrightarrow> a \<in> {''landscape'', ''portrait'', ''other''}"
  unfolding getVideoAspectRatio_def using aspect_of_cases
  by (auto simp: Let_def split: sum.splits list.splits if_splits)

lemma processVideoForFastStart_frame:
  "processVideoForFastStart E p w = (r, w1) \<Longrightarrow> db w1 = db w \<and> bucket w1 = bucket w \<and> console w1 = console w"
  unfolding processVideoForFastStart_def by (auto simp: Let_def split: if_splits)

lemma processVideoForFastStart_Inr:
  "processVideoForFastStart E p w = (Inr out, w1) \<Longrightarrow> out = p @ ''.processed.mp4''"
  unfolding processVideoForFastStart_def by (auto simp: Let_def split: if_splits)

lemma uploadVideoToS3_Inr:
  "uploadVideoToS3 E cfg key p ct w = (Inr u, w1) \<Longrightarrow>
     db w1 = db w \<and> bucket w1 = (bucket w)(key \<mapsto> \<lparr>s3_body = files w p, s3_contentType = ct\<rparr>)"
  unfolding uploadVideoToS3_def by (auto split: option.splits)

lemma dbVideoToSignedVideo_frame:
  "dbVideoToSignedVideo E cfg v w = (v1, w1) \<Longrightarrow> db w1 = db w \<and> bucket w1 = bucket w"
  unfolding dbVideoToSignedVideo_def console_log_def by (auto split: option.splits if_splits)

lemma dbVideoToSignedVideo_key:
  "videoURL v = Some key \<Longrightarrow> key \<noteq> [] \<Longrightarrow>
   fst (dbVideoToSignedVideo E cfg v w) = v\<lparr>videoURL := Some (generatePresignedURL E cfg key 300)\<rparr>"
  unfolding dbVideoToSignedVideo_def by simp

lemma uploadBody_success:
  assumes "uploadBody E cfg uid v buffer name p w = (Inr resp, pf, w')"
  shows "\<exists>aspect. aspect \<in> {''landscape'', ''portrait'', ''other''} \<and>
           pf = p @ ''.processed.mp4'' \<and>
           bucket w' (aspect @ ''/'' @ pf) \<noteq> None \<and>
           dom (bucket w') = insert (aspect @ ''/'' @ pf) (dom (bucket w)) \<and>
           db w' = (db w)(id' v \<mapsto> v\<lparr>videoURL := Some (aspect @ ''/'' @ pf)\<rparr>) \<and>
           resp = \<lparr>status = 200,
                   body = v\<lparr>videoURL := Some (generatePresignedURL E cfg (aspect @ ''/'' @ pf) 300)\<rparr>\<rparr>"
proof -
  obtain u1 w1 where s1: "Bun_write E p buffer w = (Inr u1, w1)"
    using assms unfolding uploadBody_def by (auto split: prod.splits sum.splits)
  obtain a w2 where s2: "getVideoAspectRatio E p w1 = (Inr a, w2)"
    using assms s1 unfolding uploadBody_def by (auto split: prod.splits sum.splits)
  define w3 where "w3 = console_log [LStr ''uploading video'', LStr (a @ ''/'' @ name),
                            LStr ''by user'', LStr uid] w2"
  obtain out w4 where s4: "processVideoForFastStart E p w3 = (Inr out, w4)"
    using assms s1 s2 unfolding uploadBody_def w3_def by (auto simp: Let_def split: prod.splits sum.splits)
  obtain u2 w5 where s5: "uploadVideoToS3 E cfg (a @ ''/'' @ out) out ''video/mp4'' w4 = (Inr u2, w5)"
    using assms s1 s2 s4 unfolding uploadBody_def w3_def by (auto simp: Let_def split: prod.splits sum.splits)
  define w7 where "w7 = updateVideo (v\<lparr>videoURL := Some (a @ ''/'' @ out)\<rparr>)
                    (console_log [LStr ''Uploaded video to S3:'', LStr (a @ ''/'' @ out)] w5)"
  obtain sv w8 where s8: "dbVideoToSignedVideo E cfg (v\<lparr>videoURL := Some (a @ ''/'' @ out)\<rparr>) w7 = (sv, w8)"
    by (cases "dbVideoToSignedVideo E cfg (v\<lparr>videoURL := Some (a @ ''/'' @ out)\<rparr>) w7") auto
  have res: "resp = respondWithJSON 200 sv" "pf = out" "w' = w8"
    using assms s1 s2 s4 s5 s8 unfolding uploadBody_def w3_def w7_def by (auto simp: Let_def)
  have out: "out = p @ ''.processed.mp4''" using s4 by (rule processVideoForFastStart_Inr)
  have a: "a \<in> {''landscape'', ''portrait'', ''other''}" using s2 by (rule getVideoAspectRatio_Inr)
  have f3: "db w3 = db w \<and> bucket w3 = bucket w"
    using Bun_write_frame[OF s1] getVideoAspectRatio_frame[OF s2] by (simp add: w3_def console_log_def)
  have f5: "db w5 = db w \<and> bucket w5 = (bucket w)(a @ ''/'' @ out \<mapsto> \<lparr>s3_body = files w4 out, s3_contentType = ''video/mp4''\<rparr>)"
    using processVideoForFastStart_frame[OF s4] uploadVideoToS3_Inr[OF s5] f3 by simp
  have f7: "db w7 = (db w)(id' v \<mapsto> v\<lparr>videoURL := Some (a @ ''/'' @ out)\<rparr>) \<and> bucket w7 = bucket w5"
    using f5 by (simp add: w7_def updateVideo_def console_log_def)
  have f8: "db w8 = db w7 \<and> bucket w8 = bucket w7" using dbVideoToSignedVideo_frame[OF s8] .
  have sv: "sv = v\<lparr>videoURL := Some (generatePresignedURL E cfg (a @ ''/'' @ out) 300)\<rparr>"
    using dbVideoToSignedVideo_key[of "v\<lparr>videoURL := Some (a @ ''/'' @ out)\<rparr>" "a @ ''/'' @ out" E cfg w7] s8 a
    by auto
  show ?thesis
    apply (rule exI[of _ a])
    using a out res f5 f7 f8 sv by (simp add: respondWithJSON_def)
qed

lemma handler_success:
  assumes "handlerUploadVideo E cfg req w = (Inr resp, w')"
  shows "\<exists>uid v f aspect.
           accepted E cfg req w uid v f \<and> aspect \<in> {''landscape'', ''portrait'', ''other''} \<and>
           bucket w' (aspect @ ''/'' @ tempFilepath_of E cfg f @ ''.processed.mp4'') \<noteq> None \<and>
           dom (bucket w') =
             insert (aspect @ ''/'' @ tempFilepath_of E cfg f @ ''.processed.mp4'') (dom (bucket w)) \<and>
           db w' = (db w)(id' v \<mapsto>
                     v\<lparr>videoURL := Some (aspect @ ''/'' @ tempFilepath_of E cfg f @ ''.processed.mp4'')\<rparr>) \<and>
           resp = \<lparr>status = 200,
                   body = v\<lparr>videoURL := Some (generatePresignedURL E cfg
                            (aspect @ ''/'' @ tempFilepath_of E cfg f @ ''.processed.mp4'') 300)\<rparr>\<rparr>"
proof -
  obtain uid v f where acc: "accepted E cfg req w uid v f"
    using handler_success_accepted[OF assms] by blast
  let ?p = "tempFilepath_of E cfg f"
  obtain res pf w1 where b: "uploadBody E cfg uid v (arrayBuffer f) (tempFileName_of E f) ?p w = (res, pf, w1)"
    using prod_cases3 by blast
  obtain w2 where c: "cleanup E ?p pf w1 = (Inr (), w2)"
    using cleanup_never_raises[of E ?p pf w1] by (cases "cleanup E ?p pf w1") auto
  have h: "handlerUploadVideo E cfg req w = (res, snd (cleanup E ?p pf w1))"
    by (simp add: handler_accepted[OF acc] b c try_finally_def)
  have r: "res = Inr resp" "w' = snd (cleanup E ?p pf w1)" using h assms by auto
  from uploadBody_success[OF b[unfolded r(1)]] obtain aspect where
    a: "aspect \<in> {''landscape'', ''portrait'', ''other''}" "pf = ?p @ ''.processed.mp4''"
       "bucket w1 (aspect @ ''/'' @ pf) \<noteq> None"
       "dom (bucket w1) = insert (aspect @ ''/'' @ pf) (dom (bucket w))"
       "db w1 = (db w)(id' v \<mapsto> v\<lparr>videoURL := Some (aspect @ ''/'' @ pf)\<rparr>)"
       "resp = \<lparr>status = 200,
                   body = v\<lparr>videoURL := Some (generatePresignedURL E cfg (aspect @ ''/'' @ pf) 300)\<rparr>\<rparr>"
    by blast
  show ?thesis
    apply (rule exI[of _ uid], rule exI[of _ v], rule exI[of _ f], rule exI[of _ aspect])
    using acc a r(2) cleanup_frame[of E ?p pf w1] by simp
qed

lemma rejected_forbidden:
  "authenticated E cfg req w uid v \<Longrightarrow> userID v \<noteq> uid \<Longrightarrow>
      handlerUploadVideo E cfg req w =
        (Inl (UserForbiddenError ''You do not have permission to modify this video''), w)"
  unfolding authenticated_def handlerUploadVideo_def by auto

lemma rejected_no_file:
  "authenticated E cfg req w uid v \<Longrightarrow> userID v = uid \<Longrightarrow> formData req = Inr form \<Longrightarrow>
   \<forall>f. map_of form ''video'' \<noteq> Some (FormFile f) \<Longrightarrow>
   handlerUploadVideo E cfg req w = (Inl (BadRequestError ''No video file provided''), w)"
  unfolding authenticated_def handlerUploadVideo_def
  by (auto split: option.splits form_value.splits)

lemma rejected_too_large:
  "authenticated E cfg req w uid v \<Longrightarrow> userID v = uid \<Longrightarrow> formData req = Inr form \<Longrightarrow>
   map_of form ''video'' = Some (FormFile f) \<Longrightarrow> 2 ^ 30 < fsize f \<Longrightarrow>
   handlerUploadVideo E cfg req w = (Inl (BadRequestError ''Video file is too large (max 1 GB)''), w)"
  unfolding authenticated_def handlerUploadVideo_def MAX_UPLOAD_SIZE_def
  by (auto simp: push_bit_eq_mult)

lemma rejected_wrong_type:
  "authenticated E cfg req w uid v \<Longrightarrow> userID v = uid \<Longrightarrow> formData req = Inr form \<Longrightarrow>
   map_of form ''video'' = Some (FormFile f) \<Longrightarrow> fsize f \<le> 2 ^ 30 \<Longrightarrow> ftype f \<noteq> ''video/mp4'' \<Longrightarrow>
   handlerUploadVideo E cfg req w = (Inl (BadRequestError ''Unsupported thumbnail file type''), w)"
  unfolding authenticated_def handlerUploadVideo_def MAX_UPLOAD_SIZE_def ALLOWED_THUMBNAIL_TYPES_def
  by (auto simp: push_bit_eq_mult)

lemma rejected_not_owner: "not_owner E cfg req w \<Longrightarrow> \<exists>e. handlerUploadVideo E cfg req w = (Inl e, w)"
  unfolding not_owner_def using rejected_forbidden by blast

lemma rejected_invalid:
  assumes "invalid_upload req"
  shows "\<exists>e. handlerUploadVideo E cfg req w = (Inl e, w)"
proof -
  obtain form where form: "formData req = Inr form"
    and bad: "case map_of form ''video'' of
           Some (FormFile f) \<Rightarrow> MAX_UPLOAD_SIZE < fsize f \<or> ftype f \<notin> set ALLOWED_THUMBNAIL_TYPES
         | _ \<Rightarrow> True"
    using assms unfolding invalid_upload_def by blast
  show ?thesis
    using bad unfolding handlerUploadVideo_def
    by (auto simp: form split: option.splits sum.splits form_value.splits)
qed

subsection \<open>The concrete runs\<close>

lemma replicate32: "replicate 32 x = [x,x,x,x,x,x,x,x,x,x,x,x,x,x,x,x,x,x,x,x,x,x,x,x,x,x,x,x,x,x,x,x]"
  by (simp add: numeral_eq_Suc)

lemma b64_zero: "base64url (replicate 32 0) = ''AAAAAAAAAAAAAAAAAAAAAAAAAAAAAAAAAAAAAAAAAAA''"
  unfolding replicate32 by (simp add: b64url_char_def)

lemma ex_name: "tempFileName_of example_env example_file = ''AAAAAAAAAAAAAAAAAAAAAAAAAAAAAAAAAAAAAAAAAAA.mp4''"
  by (simp add: tempFileName_of_def example_env_def example_file_def b64_zero template_nth_def)

lemma ex_path: "tempFilepath_of example_env example_cfg example_file = ''assets/AAAAAAAAAAAAAAAAAAAAAAAAAAAAAAAAAAAAAAAAAAA.mp4''"
  unfolding tempFilepath_of_def ex_name
  by (simp add: example_cfg_def path_join_def path_normalize_def)

lemma ex_aspect: "aspect_of (Num 1920) (Num 1080) = ''landscape''"
  using aspect_of_int[of 1920 1080] by (simp add: aspect_rule_def)

lemma ex_max: "MAX_UPLOAD_SIZE = 1073741824"
  by (simp add: MAX_UPLOAD_SIZE_def push_bit_eq_mult)

lemma ex_accepted: "accepted example_env example_cfg example_request example_world ''alice'' example_video example_file"
  by (simp add: accepted_def authenticated_def example_env_def example_cfg_def example_request_def
      example_world_def example_video_def example_file_def getVideo_def ex_max
      ALLOWED_THUMBNAIL_TYPES_def)

lemmas run_defs = try_finally_def uploadBody_def Bun_write_def getVideoAspectRatio_def
     processVideoForFastStart_def uploadVideoToS3_def updateVideo_def dbVideoToSignedVideo_def
     console_log_def respondWithJSON_def cleanup_def cleanup_try_def file_exists_def file_delete_def
     ffprobe_argv_def ffmpeg_argv_def Let_def

lemma ex_run_fst:
  "fst (handlerUploadVideo example_env example_cfg example_request example_world) =
     Inr \<lparr>status = 200,
          body = example_video\<lparr>videoURL := Some
            ''signed:landscape/assets/AAAAAAAAAAAAAAAAAAAAAAAAAAAAAAAAAAAAAAAAAAA.mp4.processed.mp4?ttl=300''\<rparr>\<rparr>"
  unfolding handler_accepted[OF ex_accepted] ex_path ex_name
  by (simp add: run_defs example_env_def example_world_def example_file_def example_video_def ex_aspect)

lemma ex_run:
  "handlerUploadVideo example_env example_cfg example_request example_world =
     (Inr \<lparr>status = 200,
          body = example_video\<lparr>videoURL := Some
            ''signed:landscape/assets/AAAAAAAAAAAAAAAAAAAAAAAAAAAAAAAAAAAAAAAAAAA.mp4.processed.mp4?ttl=300''\<rparr>\<rparr>,
      snd (handlerUploadVideo example_env example_cfg example_request example_world))"
  using ex_run_fst by (simp add: prod_eq_iff)

text \<open>After the successful run neither scratch file is left.\<close>

lemma ex_run_files:
  "files (snd (handlerUploadVideo example_env example_cfg example_request example_world))
     ''assets/AAAAAAAAAAAAAAAAAAAAAAAAAAAAAAAAAAAAAAAAAAA.mp4'' = None \<and>
   files (snd (handlerUploadVideo example_env example_cfg example_request example_world))
     ''assets/AAAAAAAAAAAAAAAAAAAAAAAAAAAAAAAAAAAAAAAAAAA.mp4.processed.mp4'' = None"
  unfolding handler_accepted[OF ex_accepted] ex_path ex_name
  by (simp add: run_defs example_env_def example_world_def example_file_def example_video_def ex_aspect)

lemma remux_accepted:
  "accepted remux_failing_env example_cfg example_request example_world ''alice'' example_video example_file"
  by (simp add: accepted_def authenticated_def remux_failing_env_def example_env_def example_cfg_def
      example_request_def example_world_def example_video_def example_file_def getVideo_def ex_max
      ALLOWED_THUMBNAIL_TYPES_def)

lemma remux_name: "tempFileName_of remux_failing_env example_file = tempFileName_of example_env example_file"
  by (simp add: tempFileName_of_def remux_failing_env_def)

lemma remux_path: "tempFilepath_of remux_failing_env example_cfg example_file = tempFilepath_of example_env example_cfg example_file"
  by (simp add: tempFilepath_of_def remux_name)

lemma probe_accepted:
  "accepted probe_failing_env example_cfg example_request example_world ''alice'' example_video example_file"
  by (simp add: accepted_def authenticated_def probe_failing_env_def example_env_def example_cfg_def
      example_request_def example_world_def example_video_def example_file_def getVideo_def ex_max
      ALLOWED_THUMBNAIL_TYPES_def)

lemma probe_name:
  "tempFileName_of probe_failing_env example_file = ''AAAAAAAAAAAAAAAAAAAAAAAAAAAAAAAAAAAAAAAAAAA.mp4''"
proof -
  have "tempFileName_of probe_failing_env example_file = tempFileName_of example_env example_file"
    by (simp add: tempFileName_of_def probe_failing_env_def)
  then show ?thesis by (simp only: ex_name)
qed

lemma probe_path:
  "tempFilepath_of probe_failing_env example_cfg example_file =
     ''assets/AAAAAAAAAAAAAAAAAAAAAAAAAAAAAAAAAAAAAAAAAAA.mp4''"
proof -
  have "tempFilepath_of probe_failing_env example_cfg example_file =
        tempFilepath_of example_env example_cfg example_file"
    by (simp add: tempFilepath_of_def tempFileName_of_def probe_failing_env_def)
  then show ?thesis by (simp only: ex_path)
qed

lemma probe_body:
  "uploadBody probe_failing_env example_cfg ''alice'' example_video (arrayBuffer example_file)
     (tempFileName_of probe_failing_env example_file)
     (tempFilepath_of probe_failing_env example_cfg example_file) example_world =
   (Inl (Error ''ffprobe failed with exit code 1: Invalid data found''), [],
    example_world\<lparr>files := [''assets/AAAAAAAAAAAAAAAAAAAAAAAAAAAAAAAAAAAAAAAAAAA.mp4'' \<mapsto> [1, 2, 3]]\<rparr>)"
  unfolding probe_path probe_name
  by (simp add: run_defs probe_failing_env_def example_env_def example_world_def
        example_file_def show_int_def)

lemma probe_cleanup:
  "cleanup_try probe_failing_env (tempFilepath_of probe_failing_env example_cfg example_file) []
     (example_world\<lparr>files := [''assets/AAAAAAAAAAAAAAAAAAAAAAAAAAAAAAAAAAAAAAAAAAA.mp4'' \<mapsto> [1, 2, 3]]\<rparr>) =
   (Inl (Error ''EPERM''),
    example_world\<lparr>files := [''assets/AAAAAAAAAAAAAAAAAAAAAAAAAAAAAAAAAAAAAAAAAAA.mp4'' \<mapsto> [1, 2, 3]]\<rparr>)"
  unfolding probe_path
  by (simp add: run_defs probe_failing_env_def example_env_def example_world_def)

lemma delete_accepted:
  "accepted delete_failing_env example_cfg example_request example_world ''alice'' example_video example_file"
  by (simp add: accepted_def authenticated_def delete_failing_env_def example_env_def example_cfg_def
      example_request_def example_world_def example_video_def example_file_def getVideo_def ex_max
      ALLOWED_THUMBNAIL_TYPES_def)

lemma delete_name:
  "tempFileName_of delete_failing_env example_file = ''AAAAAAAAAAAAAAAAAAAAAAAAAAAAAAAAAAAAAAAAAAA.mp4''"
proof -
  have "tempFileName_of delete_failing_env example_file = tempFileName_of example_env example_file"
    by (simp add: tempFileName_of_def delete_failing_env_def)
  then show ?thesis by (simp only: ex_name)
qed

lemma delete_path:
  "tempFilepath_of delete_failing_env example_cfg example_file =
     ''assets/AAAAAAAAAAAAAAAAAAAAAAAAAAAAAAAAAAAAAAAAAAA.mp4''"
proof -
  have "tempFilepath_of delete_failing_env example_cfg example_file =
        tempFilepath_of example_env example_cfg example_file"
    by (simp add: tempFilepath_of_def tempFileName_of_def delete_failing_env_def)
  then show ?thesis by (simp only: ex_path)
qed

section \<open>The claims\<close>

text \<open>
  C1. Claimed: on success the remuxed file is uploaded under the aspect bucket followed
  by the random name with extension \<^verbatim>\<open>.mp4\<close>. The handler builds the key from
  \<^verbatim>\<open>processedFilepath\<close>, the local path of the remuxed file, and not from
  \<^verbatim>\<open>tempFileName\<close>, which is what its own log line prints as the upload. In the
  run below the object is stored under the scratch directory and the double
  extension, nothing is stored under the key of the claim, and the first log line
  names the key of the claim.
\<close>

theorem upload_key_holds_local_path:
  "bucket (snd (handlerUploadVideo example_env example_cfg example_request example_world))
      ''landscape/assets/AAAAAAAAAAAAAAAAAAAAAAAAAAAAAAAAAAAAAAAAAAA.mp4.processed.mp4'' =
      Some \<lparr>s3_body = Some [1, 2, 3], s3_contentType = ''video/mp4''\<rparr> \<and>
   bucket (snd (handlerUploadVideo example_env example_cfg example_request example_world))
      ''landscape/AAAAAAAAAAAAAAAAAAAAAAAAAAAAAAAAAAAAAAAAAAA.mp4'' = None \<and>
   hd (console (snd (handlerUploadVideo example_env example_cfg example_request example_world))) =
      [LStr ''uploading video'', LStr ''landscape/AAAAAAAAAAAAAAAAAAAAAAAAAAAAAAAAAAAAAAAAAAA.mp4'',
       LStr ''by user'', LStr ''alice'']"
  unfolding handler_accepted[OF ex_accepted] ex_path ex_name
  by (simp add: run_defs example_env_def example_world_def example_file_def example_video_def ex_aspect)

text \<open>
  C2. For the integer dimensions a probe reports (a non-negative width, a height from 1
  to \<open>2\<^sup>3\<^sup>1 - 1\<close>) the classification computed in binary64 arithmetic is the rule over
  the exact ratio: landscape within \<open>0.01\<close> of \<open>16/9\<close>, else portrait within
  \<open>0.01\<close> of \<open>9/16\<close>, else other. The inspector returns this classification of the
  first stream. The ratios \<open>16/9\<close>, \<open>9/16\<close>, \<open>1\<close>, \<open>16/9 \<plusminus> 0.005\<close> and
  \<open>16/9 \<plusminus> 0.02\<close> classify as the specification lists them, under the rule and for
  dimensions that have these ratios.
\<close>

theorem aspect_classification:
  "(\<forall>w h :: int. 0 \<le> w \<and> 0 < h \<and> h < 2 ^ 31 \<longrightarrow>
      aspect_of (Num (of_int w)) (Num (of_int h)) = aspect_rule (of_int w / of_int h)) \<and>
   (\<forall>E p wd s rest.
      exited (spawn E (ffprobe_argv p) (files wd)) = 0 \<and>
      JSON_parse E (stdout (spawn E (ffprobe_argv p) (files wd))) = Inr (s # rest) \<longrightarrow>
      fst (getVideoAspectRatio E p (wd :: 'v world)) = Inr (aspect_of (width s) (height s))) \<and>
   aspect_rule (16 / 9) = ''landscape'' \<and>
   aspect_rule (9 / 16) = ''portrait'' \<and>
   aspect_rule 1 = ''other'' \<and>
   aspect_rule (16 / 9 + 5 / 1000) = ''landscape'' \<and>
   aspect_rule (16 / 9 - 5 / 1000) = ''landscape'' \<and>
   aspect_rule (16 / 9 + 2 / 100) = ''other'' \<and>
   aspect_rule (16 / 9 - 2 / 100) = ''other'' \<and>
   aspect_of (Num 1920) (Num 1080) = ''landscape'' \<and>
   aspect_of (Num 1080) (Num 1920) = ''portrait'' \<and>
   aspect_of (Num 1000) (Num 1000) = ''other'' \<and>
   aspect_of (Num 3209) (Num 1800) = ''landscape'' \<and>
   aspect_of (Num 3191) (Num 1800) = ''landscape'' \<and>
   aspect_of (Num 809) (Num 450) = ''other'' \<and>
   aspect_of (Num 791) (Num 450) = ''other''"
proof -
  have probe: "\<forall>E p wd s rest.
      exited (spawn E (ffprobe_argv p) (files wd)) = 0 \<and>
      JSON_parse E (stdout (spawn E (ffprobe_argv p) (files wd))) = Inr (s # rest) \<longrightarrow>
      fst (getVideoAspectRatio E p (wd :: 'v world)) = Inr (aspect_of (width s) (height s))"
    by (simp add: getVideoAspectRatio_def Let_def)
  have rule: "aspect_rule (16 / 9) = ''landscape''" "aspect_rule (9 / 16) = ''portrait''"
    "aspect_rule 1 = ''other''" "aspect_rule (16 / 9 + 5 / 1000) = ''landscape''"
    "aspect_rule (16 / 9 - 5 / 1000) = ''landscape''" "aspect_rule (16 / 9 + 2 / 100) = ''other''"
    "aspect_rule (16 / 9 - 2 / 100) = ''other''"
    by (simp_all add: aspect_rule_def)
  have inst: "aspect_of (Num 1920) (Num 1080) = ''landscape''"
    "aspect_of (Num 1080) (Num 1920) = ''portrait''"
    "aspect_of (Num 1000) (Num 1000) = ''other''"
    "aspect_of (Num 3209) (Num 1800) = ''landscape''"
    "aspect_of (Num 3191) (Num 1800) = ''landscape''"
    "aspect_of (Num 809) (Num 450) = ''other''"
    "aspect_of (Num 791) (Num 450) = ''other''"
    using aspect_of_int[of 1920 1080] aspect_of_int[of 1080 1920] aspect_of_int[of 1000 1000]
      aspect_of_int[of 3209 1800] aspect_of_int[of 3191 1800] aspect_of_int[of 809 450]
      aspect_of_int[of 791 450]
    by (simp_all add: aspect_rule_def)
  show ?thesis using aspect_of_int probe rule inst by blast
qed

text \<open>The theorem at three more resolutions and at the probe of the example run.\<close>

theorem aspect_classification_witness:
  "aspect_of (Num 1280) (Num 720) = ''landscape'' \<and>
   aspect_of (Num 720) (Num 1280) = ''portrait'' \<and>
   aspect_of (Num 640) (Num 480) = ''other'' \<and>
   fst (getVideoAspectRatio example_env ''assets/a.mp4'' example_world) = Inr ''landscape''"
proof -
  have a: "\<forall>w h :: int. 0 \<le> w \<and> 0 < h \<and> h < 2 ^ 31 \<longrightarrow>
      aspect_of (Num (of_int w)) (Num (of_int h)) = aspect_rule (of_int w / of_int h)"
    and p: "\<forall>E p wd s rest.
      exited (spawn E (ffprobe_argv p) (files wd)) = 0 \<and>
      JSON_parse E (stdout (spawn E (ffprobe_argv p) (files wd))) = Inr (s # rest) \<longrightarrow>
      fst (getVideoAspectRatio E p (wd :: unit world)) = Inr (aspect_of (width s) (height s))"
    and l: "aspect_of (Num 1920) (Num 1080) = ''landscape''"
    using aspect_classification[where 'v = unit] by blast+
  have 1: "aspect_of (Num 1280) (Num 720) = ''landscape''"
    using a[rule_format, of 1280 720] by (simp add: aspect_rule_def)
  have 2: "aspect_of (Num 720) (Num 1280) = ''portrait''"
    using a[rule_format, of 720 1280] by (simp add: aspect_rule_def)
  have 3: "aspect_of (Num 640) (Num 480) = ''other''"
    using a[rule_format, of 640 480] by (simp add: aspect_rule_def)
  have 4: "fst (getVideoAspectRatio example_env ''assets/a.mp4'' example_world) = Inr ''landscape''"
    using p[rule_format, of example_env "''assets/a.mp4''" example_world
             "\<lparr>width = Num 1920, height = Num 1080\<rparr>" "[]"] l
    by (simp add: example_env_def)
  show ?thesis using 1 2 3 4 by simp
qed

text \<open>
  C3. Claimed: when the remuxer exits non-zero the failure propagates, the record is
  not updated and every scratch file of the request is deleted. In the run below the
  remuxer has opened its output file before it fails. The failure propagates, the
  record store is unchanged and the staged file is deleted, but the output file
  stays: \<^verbatim>\<open>processedFilepath\<close> is assigned only when the remuxer returns, so the
  \<^verbatim>\<open>finally\<close> block looks for a file at the empty path.
\<close>

theorem remux_failure_leaves_output:
  "fst (handlerUploadVideo remux_failing_env example_cfg example_request example_world) =
     Inl (Error ''ffprobe failed with exit code 1: Could not write header'') \<and>
   db (snd (handlerUploadVideo remux_failing_env example_cfg example_request example_world)) =
     db example_world \<and>
   files (snd (handlerUploadVideo remux_failing_env example_cfg example_request example_world))
     ''assets/AAAAAAAAAAAAAAAAAAAAAAAAAAAAAAAAAAAAAAAAAAA.mp4'' = None \<and>
   files (snd (handlerUploadVideo remux_failing_env example_cfg example_request example_world))
     ''assets/AAAAAAAAAAAAAAAAAAAAAAAAAAAAAAAAAAAAAAAAAAA.mp4.processed.mp4'' = Some []"
  unfolding handler_accepted[OF remux_accepted] remux_path remux_name ex_path ex_name
  by (simp add: run_defs remux_failing_env_def example_env_def example_world_def example_file_def
        example_video_def ex_aspect show_int_def)

text \<open>
  C4. Claimed: the cleanup attempts the deletion of every scratch path even when an
  earlier deletion fails, and a deletion failure is logged, not raised. The second
  half holds in the run below: the request succeeds and the failure is the last line
  logged. The first half does not: both guarded deletions stand in one \<^verbatim>\<open>try\<close>
  block, so when the deletion of the staged file throws, control leaves the block
  before the processed file is looked at. In the run the file system refuses to delete
  the staged file only; the deletion of the processed file would succeed, and the
  processed file is still on disk when the handler returns. In the same run on a file
  system that refuses nothing, the same block deletes both files.
\<close>

theorem cleanup_skips_processed_file:
  "fst (handlerUploadVideo delete_failing_env example_cfg example_request example_world) =
     Inr \<lparr>status = 200,
          body = example_video\<lparr>videoURL := Some
            ''signed:landscape/assets/AAAAAAAAAAAAAAAAAAAAAAAAAAAAAAAAAAAAAAAAAAA.mp4.processed.mp4?ttl=300''\<rparr>\<rparr> \<and>
   delete_error delete_failing_env
     ''assets/AAAAAAAAAAAAAAAAAAAAAAAAAAAAAAAAAAAAAAAAAAA.mp4.processed.mp4'' = None \<and>
   files (snd (handlerUploadVideo delete_failing_env example_cfg example_request example_world))
     ''assets/AAAAAAAAAAAAAAAAAAAAAAAAAAAAAAAAAAAAAAAAAAA.mp4.processed.mp4'' = Some [1, 2, 3] \<and>
   files (snd (handlerUploadVideo delete_failing_env example_cfg example_request example_world))
     ''assets/AAAAAAAAAAAAAAAAAAAAAAAAAAAAAAAAAAAAAAAAAAA.mp4'' = Some [1, 2, 3] \<and>
   last (console (snd (handlerUploadVideo delete_failing_env example_cfg example_request
                         example_world))) =
     [LStr ''Failed to delete temp video file:'', LErr (Error ''EPERM'')] \<and>
   files (snd (handlerUploadVideo example_env example_cfg example_request example_world))
     ''assets/AAAAAAAAAAAAAAAAAAAAAAAAAAAAAAAAAAAAAAAAAAA.mp4.processed.mp4'' = None"
proof -
  have run:
    "fst (handlerUploadVideo delete_failing_env example_cfg example_request example_world) =
       Inr \<lparr>status = 200,
            body = example_video\<lparr>videoURL := Some
              ''signed:landscape/assets/AAAAAAAAAAAAAAAAAAAAAAAAAAAAAAAAAAAAAAAAAAA.mp4.processed.mp4?ttl=300''\<rparr>\<rparr> \<and>
     files (snd (handlerUploadVideo delete_failing_env example_cfg example_request example_world))
       ''assets/AAAAAAAAAAAAAAAAAAAAAAAAAAAAAAAAAAAAAAAAAAA.mp4.processed.mp4'' = Some [1, 2, 3] \<and>
     files (snd (handlerUploadVideo delete_failing_env example_cfg example_request example_world))
       ''assets/AAAAAAAAAAAAAAAAAAAAAAAAAAAAAAAAAAAAAAAAAAA.mp4'' = Some [1, 2, 3] \<and>
     last (console (snd (handlerUploadVideo delete_failing_env example_cfg example_request
                           example_world))) =
       [LStr ''Failed to delete temp video file:'', LErr (Error ''EPERM'')]"
    unfolding handler_accepted[OF delete_accepted] delete_path delete_name
    by (simp add: run_defs delete_failing_env_def example_env_def example_world_def
          example_file_def example_video_def ex_aspect)
  have ok: "delete_error delete_failing_env
     ''assets/AAAAAAAAAAAAAAAAAAAAAAAAAAAAAAAAAAAAAAAAAAA.mp4.processed.mp4'' = None"
    by (simp add: delete_failing_env_def example_env_def)
  show ?thesis using run ok ex_run_files by simp
qed

text \<open>
  C5. The inspector fails exactly when the probe exits non-zero or reports no video
  stream (its output is no document, or the list of streams is empty). On a non-zero
  exit the error carries the exit code and the captured standard error. Otherwise the
  result is the classification of the first stream.
\<close>

theorem probe_fails_iff:
  "(isl (fst (getVideoAspectRatio E p w)) \<longleftrightarrow>
      exited (spawn E (ffprobe_argv p) (files w)) \<noteq> 0 \<or>
      video_streams E (spawn E (ffprobe_argv p) (files w)) = []) \<and>
   (exited (spawn E (ffprobe_argv p) (files w)) \<noteq> 0 \<longrightarrow>
      fst (getVideoAspectRatio E p w) =
        Inl (Error (''ffprobe failed with exit code ''
                    @ show_int (exited (spawn E (ffprobe_argv p) (files w))) @ '': ''
                    @ stderr (spawn E (ffprobe_argv p) (files w))))) \<and>
   (\<forall>s rest. exited (spawn E (ffprobe_argv p) (files w)) = 0 \<and>
      video_streams E (spawn E (ffprobe_argv p) (files w)) = s # rest \<longrightarrow>
      fst (getVideoAspectRatio E p w) = Inr (aspect_of (width s) (height s)))"
  unfolding getVideoAspectRatio_def video_streams_def
  by (auto simp: Let_def split: sum.splits list.splits)

theorem probe_fails_iff_witness:
  "fst (getVideoAspectRatio example_env ''assets/a.mp4'' example_world) = Inr ''landscape'' \<and>
   fst (getVideoAspectRatio probe_failing_env ''assets/a.mp4'' example_world) =
     Inl (Error ''ffprobe failed with exit code 1: Invalid data found'') \<and>
   isl (fst (getVideoAspectRatio no_stream_env ''assets/a.mp4'' example_world))"
  using probe_fails_iff[of example_env "''assets/a.mp4''" example_world]
    probe_fails_iff[of probe_failing_env "''assets/a.mp4''" example_world]
    probe_fails_iff[of no_stream_env "''assets/a.mp4''" example_world]
  by (simp add: example_env_def probe_failing_env_def no_stream_env_def video_streams_def
        ex_aspect show_int_def)

text \<open>
  C6. A request by a user who does not own the record is answered with the forbidden
  error; a request of the owner without a file part, with a file above \<open>2\<^sup>3\<^sup>0\<close> bytes
  or with a file of another type is answered with the bad-request error of that
  check. Every request that fails one of these checks ends in an error, and in each
  case the world is returned as it was: no file, no object and no record is written.
\<close>

theorem rejected_before_staging:
  "(authenticated E cfg req w uid v \<and> userID v \<noteq> uid \<longrightarrow>
      handlerUploadVideo E cfg req w =
        (Inl (UserForbiddenError ''You do not have permission to modify this video''), w)) \<and>
   (authenticated E cfg req w uid v \<and> userID v = uid \<and> formData req = Inr form \<longrightarrow>
      ((\<forall>f. map_of form ''video'' \<noteq> Some (FormFile f)) \<longrightarrow>
         handlerUploadVideo E cfg req w = (Inl (BadRequestError ''No video file provided''), w)) \<and>
      (\<forall>f. map_of form ''video'' = Some (FormFile f) \<and> 2 ^ 30 < fsize f \<longrightarrow>
         handlerUploadVideo E cfg req w =
           (Inl (BadRequestError ''Video file is too large (max 1 GB)''), w)) \<and>
      (\<forall>f. map_of form ''video'' = Some (FormFile f) \<and> fsize f \<le> 2 ^ 30 \<and> ftype f \<noteq> ''video/mp4'' \<longrightarrow>
         handlerUploadVideo E cfg req w =
           (Inl (BadRequestError ''Unsupported thumbnail file type''), w))) \<and>
   (not_owner E cfg req w \<or> invalid_upload req \<longrightarrow>
      (\<exists>e. handlerUploadVideo E cfg req w = (Inl e, w)))"
  using rejected_forbidden[of E cfg req w uid v] rejected_no_file[of E cfg req w uid v form]
    rejected_too_large[of E cfg req w uid v form] rejected_wrong_type[of E cfg req w uid v form]
    rejected_not_owner[of E cfg req w] rejected_invalid[of req E cfg w]
  by blast

theorem rejected_before_staging_witness:
  "handlerUploadVideo example_env example_cfg bob_request example_world =
     (Inl (UserForbiddenError ''You do not have permission to modify this video''), example_world) \<and>
   handlerUploadVideo example_env example_cfg no_file_request example_world =
     (Inl (BadRequestError ''No video file provided''), example_world) \<and>
   handlerUploadVideo example_env example_cfg oversize_request example_world =
     (Inl (BadRequestError ''Video file is too large (max 1 GB)''), example_world) \<and>
   handlerUploadVideo example_env example_cfg wrong_type_request example_world =
     (Inl (BadRequestError ''Unsupported thumbnail file type''), example_world)"
  using rejected_before_staging[of example_env example_cfg bob_request example_world "''bob''"
          example_video "[]"]
    rejected_before_staging[of example_env example_cfg no_file_request example_world "''alice''"
          example_video "[(''title'', FormString ''holiday'')]"]
    rejected_before_staging[of example_env example_cfg oversize_request example_world "''alice''"
          example_video "[(''video'', FormFile (example_file\<lparr>fsize := 1073741825\<rparr>))]"]
    rejected_before_staging[of example_env example_cfg wrong_type_request example_world "''alice''"
          example_video "[(''video'', FormFile (example_file\<lparr>ftype := ''image/png''\<rparr>))]"]
  by (simp add: authenticated_def example_env_def example_cfg_def example_request_def
      example_world_def example_video_def example_file_def getVideo_def bob_request_def
      no_file_request_def oversize_request_def wrong_type_request_def)

text \<open>
  C7. On success the record store holds the record with the plain object key as its
  video URL, the bucket holds an object under that key, and the response carries
  status 200 and the record with the URL signed from that key for 300 seconds.
\<close>

theorem success_persists_key_returns_signed:
  assumes "handlerUploadVideo E cfg req w = (Inr resp, w')"
  shows "\<exists>vid v key.
           videoId req = Some vid \<and> getVideo w vid = Some v \<and> key \<noteq> [] \<and>
           bucket w' key \<noteq> None \<and>
           db w' = (db w)(id' v \<mapsto> v\<lparr>videoURL := Some key\<rparr>) \<and>
           getVideo w' (id' v) = Some (v\<lparr>videoURL := Some key\<rparr>) \<and>
           status resp = 200 \<and>
           body resp = v\<lparr>videoURL := Some (generatePresignedURL E cfg key 300)\<rparr>"
proof -
  from handler_success[OF assms] obtain uid v f aspect where
    acc: "accepted E cfg req w uid v f" and
    a: "aspect \<in> {''landscape'', ''portrait'', ''other''}" and
    b: "bucket w' (aspect @ ''/'' @ tempFilepath_of E cfg f @ ''.processed.mp4'') \<noteq> None" and
    d: "db w' = (db w)(id' v \<mapsto>
                     v\<lparr>videoURL := Some (aspect @ ''/'' @ tempFilepath_of E cfg f @ ''.processed.mp4'')\<rparr>)" and
    r: "resp = \<lparr>status = 200,
                   body = v\<lparr>videoURL := Some (generatePresignedURL E cfg
                            (aspect @ ''/'' @ tempFilepath_of E cfg f @ ''.processed.mp4'') 300)\<rparr>\<rparr>"
    by blast
  from acc obtain vid where v: "videoId req = Some vid" "getVideo w vid = Some v"
    unfolding accepted_def authenticated_def by blast
  show ?thesis
    apply (rule exI[of _ vid], rule exI[of _ v])
    apply (rule exI[of _ "aspect @ ''/'' @ tempFilepath_of E cfg f @ ''.processed.mp4''"])
    using v a b d r by (auto simp: getVideo_def)
qed

theorem success_persists_key_returns_signed_witness:
  "\<exists>vid v key.
     videoId example_request = Some vid \<and> getVideo example_world vid = Some v \<and> key \<noteq> [] \<and>
     bucket (snd (handlerUploadVideo example_env example_cfg example_request example_world)) key \<noteq> None \<and>
     db (snd (handlerUploadVideo example_env example_cfg example_request example_world)) =
       (db example_world)(id' v \<mapsto> v\<lparr>videoURL := Some key\<rparr>) \<and>
     getVideo (snd (handlerUploadVideo example_env example_cfg example_request example_world)) (id' v) =
       Some (v\<lparr>videoURL := Some key\<rparr>) \<and>
     status \<lparr>status = 200,
          body = example_video\<lparr>videoURL := Some
            ''signed:landscape/assets/AAAAAAAAAAAAAAAAAAAAAAAAAAAAAAAAAAAAAAAAAAA.mp4.processed.mp4?ttl=300''\<rparr>\<rparr> = 200 \<and>
     body \<lparr>status = 200,
          body = example_video\<lparr>videoURL := Some
            ''signed:landscape/assets/AAAAAAAAAAAAAAAAAAAAAAAAAAAAAAAAAAAAAAAAAAA.mp4.processed.mp4?ttl=300''\<rparr>\<rparr> =
       v\<lparr>videoURL := Some (generatePresignedURL example_env example_cfg key 300)\<rparr>"
  using success_persists_key_returns_signed[OF ex_run] .

text \<open>
  C8. Signing a record without a video URL (absent or empty, the values that
  \<^verbatim>\<open>!video.videoURL\<close> accepts) returns the record and the world unchanged. Signing
  a record with a key returns it with the URL signed from that key for 300 seconds.
\<close>

theorem signing_absent_is_noop:
  "(videoURL v = None \<or> videoURL v = Some [] \<longrightarrow> dbVideoToSignedVideo E cfg v w = (v, w)) \<and>
   (\<forall>key. videoURL v = Some key \<and> key \<noteq> [] \<longrightarrow>
      fst (dbVideoToSignedVideo E cfg v w) = v\<lparr>videoURL := Some (generatePresignedURL E cfg key 300)\<rparr>)"
  unfolding dbVideoToSignedVideo_def by (auto split: option.splits)

theorem signing_absent_is_noop_witness:
  "dbVideoToSignedVideo example_env example_cfg example_video example_world =
     (example_video, example_world) \<and>
   fst (dbVideoToSignedVideo example_env example_cfg
          (example_video\<lparr>videoURL := Some ''landscape/k.mp4''\<rparr>) example_world) =
     example_video\<lparr>videoURL := Some ''signed:landscape/k.mp4?ttl=300''\<rparr>"
  using signing_absent_is_noop[of example_video example_env example_cfg example_world]
    signing_absent_is_noop[of "example_video\<lparr>videoURL := Some ''landscape/k.mp4''\<rparr>"
      example_env example_cfg example_world]
  by (simp add: example_video_def example_env_def)

text \<open>
  C9. When the body of the pipeline fails with an error, the handler fails with that
  error, whatever the cleanup does; when the cleanup fails too, its error is logged
  and the world is otherwise the one the failed deletion left.
\<close>

theorem cleanup_failure_never_masks:
  assumes "accepted E cfg req w uid v f"
    and "uploadBody E cfg uid v (arrayBuffer f) (tempFileName_of E f) (tempFilepath_of E cfg f) w
           = (Inl e, pf, w1)"
  shows "fst (handlerUploadVideo E cfg req w) = Inl e \<and>
         (\<forall>err w2. cleanup_try E (tempFilepath_of E cfg f) pf w1 = (Inl err, w2) \<longrightarrow>
            snd (handlerUploadVideo E cfg req w) =
              console_log [LStr ''Failed to delete temp video file:'', LErr err] w2)"
  by (auto simp: handler_accepted[OF assms(1)] assms(2) try_finally_def cleanup_def
        split: prod.splits sum.splits)

theorem cleanup_failure_never_masks_witness:
  "fst (handlerUploadVideo probe_failing_env example_cfg example_request example_world) =
     Inl (Error ''ffprobe failed with exit code 1: Invalid data found'') \<and>
   snd (handlerUploadVideo probe_failing_env example_cfg example_request example_world) =
     console_log [LStr ''Failed to delete temp video file:'', LErr (Error ''EPERM'')]
       (example_world\<lparr>files := [''assets/AAAAAAAAAAAAAAAAAAAAAAAAAAAAAAAAAAAAAAAAAAA.mp4'' \<mapsto> [1, 2, 3]]\<rparr>)"
  using cleanup_failure_never_masks[OF probe_accepted probe_body] probe_cleanup by blast

text \<open>
  C10. On success the stored record and the returned record agree with the record
  fetched at the start in the id, the owner, the thumbnail URL and every further
  field; only the video URL differs. No other record of the store changes.
\<close>

theorem success_changes_only_videoURL:
  assumes "handlerUploadVideo E cfg req w = (Inr resp, w')"
  shows "\<exists>vid v u.
           videoId req = Some vid \<and> getVideo w vid = Some v \<and>
           getVideo w' (id' v) = Some u \<and>
           id' u = id' v \<and> userID u = userID v \<and> thumbnailURL u = thumbnailURL v \<and>
           video.more u = video.more v \<and>
           id' (body resp) = id' v \<and> userID (body resp) = userID v \<and>
           thumbnailURL (body resp) = thumbnailURL v \<and> video.more (body resp) = video.more v \<and>
           (\<forall>k. k \<noteq> id' v \<longrightarrow> getVideo w' k = getVideo w k)"
proof -
  from handler_success[OF assms] obtain uid v f aspect where
    acc: "accepted E cfg req w uid v f" and
    d: "db w' = (db w)(id' v \<mapsto>
                     v\<lparr>videoURL := Some (aspect @ ''/'' @ tempFilepath_of E cfg f @ ''.processed.mp4'')\<rparr>)" and
    r: "resp = \<lparr>status = 200,
                   body = v\<lparr>videoURL := Some (generatePresignedURL E cfg
                            (aspect @ ''/'' @ tempFilepath_of E cfg f @ ''.processed.mp4'') 300)\<rparr>\<rparr>"
    by blast
  from acc obtain vid where v: "videoId req = Some vid" "getVideo w vid = Some v"
    unfolding accepted_def authenticated_def by blast
  show ?thesis
    apply (rule exI[of _ vid], rule exI[of _ v])
    apply (rule exI[of _ "v\<lparr>videoURL := Some (aspect @ ''/'' @ tempFilepath_of E cfg f @ ''.processed.mp4'')\<rparr>"])
    using v d r by (auto simp: getVideo_def)
qed

theorem success_changes_only_videoURL_witness:
  "\<exists>vid v u.
     videoId example_request = Some vid \<and> getVideo example_world vid = Some v \<and>
     getVideo (snd (handlerUploadVideo example_env example_cfg example_request example_world))
       (id' v) = Some u \<and>
     id' u = id' v \<and> userID u = userID v \<and> thumbnailURL u = thumbnailURL v \<and>
     video.more u = video.more v \<and>
     id' (body \<lparr>status = 200,
          body = example_video\<lparr>videoURL := Some
            ''signed:landscape/assets/AAAAAAAAAAAAAAAAAAAAAAAAAAAAAAAAAAAAAAAAAAA.mp4.processed.mp4?ttl=300''\<rparr>\<rparr>) = id' v \<and>
     userID (body \<lparr>status = 200,
          body = example_video\<lparr>videoURL := Some
            ''signed:landscape/assets/AAAAAAAAAAAAAAAAAAAAAAAAAAAAAAAAAAAAAAAAAAA.mp4.processed.mp4?ttl=300''\<rparr>\<rparr>) = userID v \<and>
     thumbnailURL (body \<lparr>status = 200,
          body = example_video\<lparr>videoURL := Some
            ''signed:landscape/assets/AAAAAAAAAAAAAAAAAAAAAAAAAAAAAAAAAAAAAAAAAAA.mp4.processed.mp4?ttl=300''\<rparr>\<rparr>) = thumbnailURL v \<and>
     video.more (body \<lparr>status = 200,
          body = example_video\<lparr>videoURL := Some
            ''signed:landscape/assets/AAAAAAAAAAAAAAAAAAAAAAAAAAAAAAAAAAAAAAAAAAA.mp4.processed.mp4?ttl=300''\<rparr>\<rparr>) = video.more v \<and>
     (\<forall>k. k \<noteq> id' v \<longrightarrow>
        getVideo (snd (handlerUploadVideo example_env example_cfg example_request example_world)) k =
        getVideo example_world k)"
  using success_changes_only_videoURL[OF ex_run] .

end
